theory Spec2Isabelle
  imports Complex_Main "HOL-Library.Word"
begin

unbundle bit_operations_syntax

section \<open>JavaScript values\<close>

text \<open>
  A JavaScript string is a sequence of UTF-16 code units; \<open>ascii\<close> writes a string
  literal of the source as such a sequence.  Numbers are IEEE doubles in the source; the
  only non-integral numbers of the program are lengths in eighths of a byte, far below
  \<open>2^53\<close>, so they are modelled exactly as rationals.  A thrown exception is the left
  summand of a result.
\<close>

type_synonym jsstring = "16 word list"
type_synonym byte = "8 word"

datatype error = RangeError | URIError | TypeError | Error jsstring

definition ascii :: "string \<Rightarrow> jsstring" where
  "ascii s = map (\<lambda>c. of_char c) s"

definition startsWith :: "jsstring \<Rightarrow> jsstring \<Rightarrow> bool" where
  "startsWith s p = (take (length p) s = p)"

definition bindE :: "error + 'a \<Rightarrow> ('a \<Rightarrow> error + 'b) \<Rightarrow> error + 'b" where
  "bindE r f = (case r of Inl e \<Rightarrow> Inl e | Inr a \<Rightarrow> f a)"

text \<open>ECMAScript \<open>ToIndex\<close>: truncate towards zero, refuse what is negative or above \<open>2^53 - 1\<close>.\<close>

definition ToIndex :: "rat \<Rightarrow> error + nat" where
  "ToIndex x = (let i = (if 0 \<le> x then \<lfloor>x\<rfloor> else \<lceil>x\<rceil>)
                in if i < 0 then Inl RangeError
                   else if 2 ^ 53 - 1 < i then Inl RangeError
                   else Inr (nat i))"

text \<open>\<open>TypedArray.prototype.set(source, offset)\<close> on a \<open>Uint8Array\<close>.\<close>

definition Uint8Array_set :: "byte list \<Rightarrow> byte list \<Rightarrow> nat \<Rightarrow> error + byte list" where
  "Uint8Array_set target source offset =
     (if length target < offset + length source then Inl RangeError
      else Inr (take offset target @ source @ drop (offset + length source) target))"

text \<open>\<open>DataView.getUint32\<close> and \<open>setUint32\<close>, big-endian (\<open>littleEndian = false\<close>).\<close>

definition getUint32 :: "byte list \<Rightarrow> nat \<Rightarrow> error + 32 word" where
  "getUint32 view byteOffset =
     (if length view < byteOffset + 4 then Inl RangeError
      else Inr (push_bit 24 (ucast (view ! byteOffset))
             OR push_bit 16 (ucast (view ! (byteOffset + 1)))
             OR push_bit 8 (ucast (view ! (byteOffset + 2)))
             OR ucast (view ! (byteOffset + 3))))"

definition bytesOfUint32 :: "32 word \<Rightarrow> byte list" where
  "bytesOfUint32 w = [ucast (drop_bit 24 w), ucast (drop_bit 16 w), ucast (drop_bit 8 w), ucast w]"

definition setUint32 :: "byte list \<Rightarrow> rat \<Rightarrow> 32 word \<Rightarrow> error + byte list" where
  "setUint32 view byteOffset v =
     bindE (ToIndex byteOffset) (\<lambda>i.
       if length view < i + 4 then Inl RangeError
       else Inr (take i view @ bytesOfUint32 v @ drop (i + 4) view))"

section \<open>UTF-8 (the platform's \<open>TextEncoder\<close>)\<close>

definition isHighSurrogate :: "16 word \<Rightarrow> bool" where
  "isHighSurrogate c = (0xD800 \<le> c \<and> c \<le> 0xDBFF)"

definition isLowSurrogate :: "16 word \<Rightarrow> bool" where
  "isLowSurrogate c = (0xDC00 \<le> c \<and> c \<le> 0xDFFF)"

text \<open>The code points of a string; \<open>None\<close> stands for an unpaired surrogate.\<close>

fun codePoints :: "jsstring \<Rightarrow> nat option list" where
  "codePoints [] = []"
| "codePoints [c] = [if isHighSurrogate c then None else if isLowSurrogate c then None else Some (unat c)]"
| "codePoints (c # d # s) =
     (if isHighSurrogate c
      then (if isLowSurrogate d
            then Some (0x10000 + (unat c - 0xD800) * 0x400 + (unat d - 0xDC00)) # codePoints s
            else None # codePoints (d # s))
      else (if isLowSurrogate c then None else Some (unat c)) # codePoints (d # s))"

definition utf8 :: "nat \<Rightarrow> byte list" where
  "utf8 cp =
     (if cp < 0x80 then [of_nat cp]
      else if cp < 0x800 then [of_nat (0xC0 + cp div 0x40), of_nat (0x80 + cp mod 0x40)]
      else if cp < 0x10000 then
        [of_nat (0xE0 + cp div 0x1000), of_nat (0x80 + (cp div 0x40) mod 0x40), of_nat (0x80 + cp mod 0x40)]
      else
        [of_nat (0xF0 + cp div 0x40000), of_nat (0x80 + (cp div 0x1000) mod 0x40),
         of_nat (0x80 + (cp div 0x40) mod 0x40), of_nat (0x80 + cp mod 0x40)])"

text \<open>\<open>stringToBytes\<close>: \<open>new TextEncoder().encode(str)\<close>; an unpaired surrogate is encoded as U+FFFD.\<close>

definition stringToBytes :: "jsstring \<Rightarrow> byte list" where
  "stringToBytes str = concat (map (\<lambda>cp. case cp of None \<Rightarrow> utf8 0xFFFD | Some n \<Rightarrow> utf8 n) (codePoints str))"

definition hexDigit :: "nat \<Rightarrow> 16 word" where
  "hexDigit n = (if n < 10 then of_nat (48 + n) else of_nat (87 + n))"

text \<open>\<open>bytesToHex\<close>: each byte as two lowercase hexadecimal digits.\<close>

definition bytesToHex :: "byte list \<Rightarrow> jsstring" where
  "bytesToHex bytes = concat (map (\<lambda>b. [hexDigit (unat b div 16), hexDigit (unat b mod 16)]) bytes)"

section \<open>SHA-256 and HMAC (the revision of \<open>lib/crypto\<close> that computes the digest)\<close>

type_synonym hash = "32 word \<times> 32 word \<times> 32 word \<times> 32 word \<times> 32 word \<times> 32 word \<times> 32 word \<times> 32 word"

definition K :: "32 word list" where
  "K = [0x428A2F98, 0x71374491, 0xB5C0FBCF, 0xE9B5DBA5, 0x3956C25B, 0x59F111F1, 0x923F82A4, 0xAB1C5ED5,
        0xD807AA98, 0x12835B01, 0x243185BE, 0x550C7DC3, 0x72BE5D74, 0x80DEB1FE, 0x9BDC06A7, 0xC19BF174,
        0xE49B69C1, 0xEFBE4786, 0x0FC19DC6, 0x240CA1CC, 0x2DE92C6F, 0x4A7484AA, 0x5CB0A9DC, 0x76F988DA,
        0x983E5152, 0xA831C66D, 0xB00327C8, 0xBF597FC7, 0xC6E00BF3, 0xD5A79147, 0x06CA6351, 0x14292967,
        0x27B70A85, 0x2E1B2138, 0x4D2C6DFC, 0x53380D13, 0x650A7354, 0x766A0ABB, 0x81C2C92E, 0x92722C85,
        0xA2BFE8A1, 0xA81A664B, 0xC24B8B70, 0xC76C51A3, 0xD192E819, 0xD6990624, 0xF40E3585, 0x106AA070,
        0x19A4C116, 0x1E376C08, 0x2748774C, 0x34B0BCB5, 0x391C0CB3, 0x4ED8AA4A, 0x5B9CCA4F, 0x682E6FF3,
        0x748F82EE, 0x78A5636F, 0x84C87814, 0x8CC70208, 0x90BEFFFA, 0xA4506CEB, 0xBEF9A3F7, 0xC67178F2]"

definition H0 :: hash where
  "H0 = (0x6a09e667, 0xbb67ae85, 0x3c6ef372, 0xa54ff53a, 0x510e527f, 0x9b05688c, 0x1f83d9ab, 0x5be0cd19)"

definition rotr :: "32 word \<Rightarrow> nat \<Rightarrow> 32 word" where
  "rotr n d = drop_bit d n OR push_bit (32 - d) n"

text \<open>The first sixteen words of the schedule: \<open>W[i] = view.getUint32(offset + i * 4, false)\<close>,
  read in order, so the first read out of bounds throws.\<close>

fun readWords :: "byte list \<Rightarrow> nat \<Rightarrow> nat list \<Rightarrow> error + 32 word list" where
  "readWords view offset [] = Inr []"
| "readWords view offset (i # is) =
     bindE (getUint32 view (offset + i * 4)) (\<lambda>w.
       bindE (readWords view offset is) (\<lambda>ws. Inr (w # ws)))"

text \<open>Words 16 to 63 of the schedule; \<open>W\<close> holds the words written so far.\<close>

fun extendSchedule :: "nat \<Rightarrow> 32 word list \<Rightarrow> 32 word list" where
  "extendSchedule 0 W = W"
| "extendSchedule (Suc n) W =
     (let i = length W;
          s0 = rotr (W ! (i - 15)) 7 XOR rotr (W ! (i - 15)) 18 XOR drop_bit 3 (W ! (i - 15));
          s1 = rotr (W ! (i - 2)) 17 XOR rotr (W ! (i - 2)) 19 XOR drop_bit 10 (W ! (i - 2))
      in extendSchedule n (W @ [W ! (i - 16) + s0 + W ! (i - 7) + s1]))"

definition sha_round :: "32 word list \<Rightarrow> hash \<Rightarrow> nat \<Rightarrow> hash" where
  "sha_round W st i =
     (case st of (a, b, c, d, e, f, g, h) \<Rightarrow>
        let S1 = rotr e 6 XOR rotr e 11 XOR rotr e 25;
            ch = (e AND f) XOR (NOT e AND g);
            temp1 = h + S1 + ch + K ! i + W ! i;
            S0 = rotr a 2 XOR rotr a 13 XOR rotr a 22;
            maj = (a AND b) XOR (a AND c) XOR (b AND c);
            temp2 = S0 + maj
        in (temp1 + temp2, a, b, c, d + temp1, e, f, g))"

definition compress :: "hash \<Rightarrow> 32 word list \<Rightarrow> hash" where
  "compress hs W =
     (case hs of (h0, h1, h2, h3, h4, h5, h6, h7) \<Rightarrow>
        case foldl (sha_round W) hs [0..<64] of (a, b, c, d, e, f, g, h) \<Rightarrow>
          (h0 + a, h1 + b, h2 + c, h3 + d, h4 + e, h5 + f, h6 + g, h7 + h))"

text \<open>The block loop \<open>for (offset = 0; offset < totalLength; offset += 64)\<close>; \<open>totalLength\<close>
  is the number the source computes, not the length of the buffer.\<close>

function processBlocks :: "byte list \<Rightarrow> rat \<Rightarrow> nat \<Rightarrow> hash \<Rightarrow> error + hash" where
  "processBlocks view totalLength offset hs =
     (if of_nat offset < totalLength
      then (case readWords view offset [0..<16] of
              Inl e \<Rightarrow> Inl e
            | Inr W16 \<Rightarrow> processBlocks view totalLength (offset + 64) (compress hs (extendSchedule 48 W16)))
      else Inr hs)"
  by pat_completeness auto
termination
proof (relation "measure (\<lambda>(view, totalLength, offset, hs). nat \<lceil>totalLength\<rceil> - offset)")
  show "wf (measure (\<lambda>(view, totalLength, offset, hs). nat \<lceil>totalLength :: rat\<rceil> - offset))"
    by simp
next
  fix view :: "byte list" and totalLength :: rat and offset :: nat and hs :: hash and W16 :: "32 word list"
  assume "of_nat offset < totalLength"
  then have "int offset < \<lceil>totalLength\<rceil>"
    by (simp add: less_ceiling_iff)
  then show "((view, totalLength, offset + 64, compress hs (extendSchedule 48 W16)), (view, totalLength, offset, hs))
        \<in> measure (\<lambda>(view, totalLength, offset, hs). nat \<lceil>totalLength\<rceil> - offset)"
    by simp
qed

definition sha256Bytes :: "byte list \<Rightarrow> error + byte list" where
  "sha256Bytes data =
     (let bitLength = int (length data) * 8;
          paddingLength = ((448 - (bitLength + 1) mod 512) + 512) mod 512;
          totalLength = (of_nat (length data) + 1 + of_int paddingLength / 8 + 8 :: rat)
      in bindE (ToIndex totalLength) (\<lambda>n.
         bindE (Uint8Array_set (replicate n 0) data 0) (\<lambda>padded0.
         bindE (setUint32 (padded0[length data := 0x80]) (totalLength - 4) (word_of_int bitLength)) (\<lambda>view.
         bindE (processBlocks view totalLength 0 H0) (\<lambda>hs.
           case hs of (h0, h1, h2, h3, h4, h5, h6, h7) \<Rightarrow>
             Inr (concat (map bytesOfUint32 [h0, h1, h2, h3, h4, h5, h6, h7])))))))"

definition hmacSha256 :: "jsstring \<Rightarrow> jsstring \<Rightarrow> error + jsstring" where
  "hmacSha256 message key =
     (let blockSize = 64;
          messageBytes = stringToBytes message
      in bindE (if blockSize < length (stringToBytes key) then sha256Bytes (stringToBytes key)
                else Inr (stringToBytes key)) (\<lambda>keyBytes1.
         bindE (if length keyBytes1 < blockSize then Uint8Array_set (replicate blockSize 0) keyBytes1 0
                else Inr keyBytes1) (\<lambda>keyBytes.
         let innerPadded = map (\<lambda>i. keyBytes ! i XOR 0x36) [0..<blockSize];
             outerPadded = map (\<lambda>i. keyBytes ! i XOR 0x5c) [0..<blockSize]
         in bindE (Uint8Array_set (replicate (blockSize + length messageBytes) 0) innerPadded 0) (\<lambda>innerData0.
            bindE (Uint8Array_set innerData0 messageBytes blockSize) (\<lambda>innerData.
            bindE (sha256Bytes innerData) (\<lambda>innerHash.
            bindE (Uint8Array_set (replicate (blockSize + 32) 0) outerPadded 0) (\<lambda>outerData0.
            bindE (Uint8Array_set outerData0 innerHash blockSize) (\<lambda>outerData.
            bindE (sha256Bytes outerData) (\<lambda>finalHash.
              Inr (bytesToHex finalHash))))))))))"

definition computeHmacSha256 :: "jsstring \<Rightarrow> jsstring \<Rightarrow> error + jsstring" where
  "computeHmacSha256 message secret = hmacSha256 message secret"

text \<open>\<open>timingSafeEqual\<close>, instrumented: the second component counts the executions of the loop
  body, each of which compares one pair of code units.  The loop is only reached with strings of
  equal length, so both \<open>charCodeAt\<close> are in range.\<close>

definition timingSafeEqual_counted :: "jsstring \<Rightarrow> jsstring \<Rightarrow> bool \<times> nat" where
  "timingSafeEqual_counted a b =
     (if length a \<noteq> length b then (False, 0)
      else case foldl (\<lambda>(result, n) i. (result OR (ucast (a ! i) XOR ucast (b ! i)), n + 1))
                  (0 :: 32 word, 0 :: nat) [0..<length a]
           of (result, n) \<Rightarrow> (result = 0, n))"

definition timingSafeEqual :: "jsstring \<Rightarrow> jsstring \<Rightarrow> bool" where
  "timingSafeEqual a b = fst (timingSafeEqual_counted a b)"

text \<open>\<open>verifySignature\<close> as the revision with the digest has it (\<open>src/unnamed/part_000\<close>).  The
  header may be missing: \<open>None\<close> is \<open>undefined\<close>.\<close>

definition verifySignature_hmac :: "jsstring \<Rightarrow> jsstring option \<Rightarrow> jsstring \<Rightarrow> error + bool" where
  "verifySignature_hmac body signature secret =
     (case signature of
        None \<Rightarrow> Inr False
      | Some sig \<Rightarrow>
          if sig = [] then Inr False
          else if startsWith sig (ascii ''sha256='') then
            (let providedHash = drop 7 sig
             in bindE (computeHmacSha256 body secret) (\<lambda>expectedHash.
                  Inr (timingSafeEqual providedHash expectedHash)))
          else Inr False)"

text \<open>\<open>verifySignature\<close> of \<open>src/lib/crypto.ts\<close>, the module the endpoint imports: it only
  checks that the header is there and starts with \<open>sha256=\<close>.\<close>

definition verifySignature :: "jsstring \<Rightarrow> jsstring option \<Rightarrow> jsstring \<Rightarrow> bool" where
  "verifySignature body signature secret =
     (case signature of
        None \<Rightarrow> False
      | Some sig \<Rightarrow> if sig = [] then False else if startsWith sig (ascii ''sha256='') then True else False)"

section \<open>URI escapes (the platform's \<open>encodeURIComponent\<close> and \<open>decodeURIComponent\<close>)\<close>

text \<open>The characters \<open>encodeURIComponent\<close> leaves alone: letters, digits and \<open>- _ . ! ~ * ' ( )\<close>.\<close>

definition uriUnreserved :: "nat \<Rightarrow> bool" where
  "uriUnreserved n =
     ((0x41 \<le> n \<and> n \<le> 0x5A) \<or> (0x61 \<le> n \<and> n \<le> 0x7A) \<or> (0x30 \<le> n \<and> n \<le> 0x39)
      \<or> n = 0x2D \<or> n = 0x5F \<or> n = 0x2E \<or> n = 0x21 \<or> n = 0x7E \<or> n = 0x2A
      \<or> n = 0x27 \<or> n = 0x28 \<or> n = 0x29)"

definition hexUpper :: "nat \<Rightarrow> 16 word" where
  "hexUpper n = (if n < 10 then of_nat (48 + n) else of_nat (55 + n))"

definition percentEncode :: "byte \<Rightarrow> jsstring" where
  "percentEncode b = [0x25, hexUpper (unat b div 16), hexUpper (unat b mod 16)]"

fun encodePoints :: "nat option list \<Rightarrow> error + jsstring" where
  "encodePoints [] = Inr []"
| "encodePoints (None # cps) = Inl URIError"
| "encodePoints (Some n # cps) =
     bindE (encodePoints cps) (\<lambda>rest.
       Inr ((if uriUnreserved n then [of_nat n] else concat (map percentEncode (utf8 n))) @ rest))"

definition encodeURIComponent :: "jsstring \<Rightarrow> error + jsstring" where
  "encodeURIComponent s = encodePoints (codePoints s)"

definition hexValue :: "16 word \<Rightarrow> nat option" where
  "hexValue c =
     (if 0x30 \<le> c \<and> c \<le> 0x39 then Some (unat c - 0x30)
      else if 0x41 \<le> c \<and> c \<le> 0x46 then Some (unat c - 0x37)
      else if 0x61 \<le> c \<and> c \<le> 0x66 then Some (unat c - 0x57)
      else None)"

definition parseHexOctet :: "16 word \<Rightarrow> 16 word \<Rightarrow> nat option" where
  "parseHexOctet h1 h2 =
     (case hexValue h1 of None \<Rightarrow> None
      | Some a \<Rightarrow> (case hexValue h2 of None \<Rightarrow> None | Some b \<Rightarrow> Some (16 * a + b)))"

text \<open>The number of leading one bits of an octet (5 stands for "more than four").\<close>

definition leadingOnes :: "nat \<Rightarrow> nat" where
  "leadingOnes B =
     (if B < 0x80 then 0 else if B < 0xC0 then 1 else if B < 0xE0 then 2
      else if B < 0xF0 then 3 else if B < 0xF8 then 4 else 5)"

definition isContinuation :: "nat \<Rightarrow> bool" where
  "isContinuation B = (0x80 \<le> B \<and> B \<le> 0xBF)"

definition scalarValue :: "nat \<Rightarrow> nat \<Rightarrow> nat option" where
  "scalarValue least cp =
     (if cp < least then None
      else if 0xD800 \<le> cp \<and> cp \<le> 0xDFFF then None
      else if 0x10FFFF < cp then None
      else Some cp)"

text \<open>The code point of a well-formed UTF-8 sequence of two to four octets: no overlong form,
  no surrogate, nothing above U+10FFFF.\<close>

fun utf8Decode :: "nat list \<Rightarrow> nat option" where
  "utf8Decode [b0, b1] =
     (if isContinuation b1 then scalarValue 0x80 ((b0 - 0xC0) * 0x40 + (b1 - 0x80)) else None)"
| "utf8Decode [b0, b1, b2] =
     (if isContinuation b1 \<and> isContinuation b2
      then scalarValue 0x800 ((b0 - 0xE0) * 0x1000 + (b1 - 0x80) * 0x40 + (b2 - 0x80))
      else None)"
| "utf8Decode [b0, b1, b2, b3] =
     (if isContinuation b1 \<and> isContinuation b2 \<and> isContinuation b3
      then scalarValue 0x10000 ((b0 - 0xF0) * 0x40000 + (b1 - 0x80) * 0x1000 + (b2 - 0x80) * 0x40 + (b3 - 0x80))
      else None)"
| "utf8Decode bs = None"

definition utf16 :: "nat \<Rightarrow> jsstring" where
  "utf16 cp =
     (if cp < 0x10000 then [of_nat cp]
      else [of_nat (0xD800 + (cp - 0x10000) div 0x400), of_nat (0xDC00 + (cp - 0x10000) mod 0x400)])"

text \<open>ECMAScript \<open>Decode\<close> with no reserved set.  \<open>decodeFrom m octets s\<close>: \<open>m\<close> escapes of a
  multi-octet sequence are still to be read after \<open>octets\<close>.\<close>

fun decodeFrom :: "nat \<Rightarrow> nat list \<Rightarrow> jsstring \<Rightarrow> error + jsstring" where
  "decodeFrom 0 octets [] = Inr []"
| "decodeFrom 0 octets (c # s) =
     (if c = 0x25 then
        (case s of
           h1 # h2 # s' \<Rightarrow>
             (case parseHexOctet h1 h2 of
                None \<Rightarrow> Inl URIError
              | Some B \<Rightarrow>
                  if leadingOnes B = 0 then bindE (decodeFrom 0 [] s') (\<lambda>r. Inr (of_nat B # r))
                  else if leadingOnes B = 1 then Inl URIError
                  else if 4 < leadingOnes B then Inl URIError
                  else if length s' < 3 * (leadingOnes B - 1) then Inl URIError
                  else decodeFrom (leadingOnes B - 1) [B] s')
         | _ \<Rightarrow> Inl URIError)
      else bindE (decodeFrom 0 [] s) (\<lambda>r. Inr (c # r)))"
| "decodeFrom (Suc m) octets (c # h1 # h2 # s') =
     (if c = 0x25 then
        (case parseHexOctet h1 h2 of
           None \<Rightarrow> Inl URIError
         | Some B \<Rightarrow>
             if m = 0 then
               (case utf8Decode (octets @ [B]) of
                  None \<Rightarrow> Inl URIError
                | Some V \<Rightarrow> bindE (decodeFrom 0 [] s') (\<lambda>r. Inr (utf16 V @ r)))
             else decodeFrom m (octets @ [B]) s')
      else Inl URIError)"
| "decodeFrom (Suc m) octets s = Inl URIError"

definition decodeURIComponent :: "jsstring \<Rightarrow> error + jsstring" where
  "decodeURIComponent s = decodeFrom 0 [] s"

section \<open>Regular expressions of the source\<close>

text \<open>\<open>String.prototype.match\<close> with a pattern without the \<open>g\<close> flag: the pattern is tried at
  each start index from the left; \<open>m\<close> is the pattern anchored at the start of its argument,
  returning the first capture group.\<close>

fun searchRegex :: "(jsstring \<Rightarrow> 'a option) \<Rightarrow> jsstring \<Rightarrow> 'a option" where
  "searchRegex m [] = m []"
| "searchRegex m (c # s) = (case m (c # s) of Some r \<Rightarrow> Some r | None \<Rightarrow> searchRegex m s)"

text \<open>A greedy \<open>([^...]+)\<close> at the end of a pattern: the longest run of allowed code units,
  which must not be empty.\<close>

definition captureWhile :: "(16 word \<Rightarrow> bool) \<Rightarrow> jsstring \<Rightarrow> jsstring option" where
  "captureWhile allowed s = (if takeWhile allowed s = [] then None else Some (takeWhile allowed s))"

text \<open>The pattern \<open>/\/group\/([^\/\?]+)/\<close>.\<close>

definition matchGroupPath :: "jsstring \<Rightarrow> jsstring option" where
  "matchGroupPath s =
     (if startsWith s (ascii ''/group/'')
      then captureWhile (\<lambda>c. c \<noteq> 0x2F \<and> c \<noteq> 0x3F) (drop 7 s)
      else None)"

text \<open>Matching under the \<open>i\<close> flag: the letters of these patterns are ASCII, and a code unit
  above 127 is never canonicalised to an ASCII one.\<close>

definition asciiUpper :: "16 word \<Rightarrow> 16 word" where
  "asciiUpper c = (if 0x61 \<le> c \<and> c \<le> 0x7A then c - 0x20 else c)"

definition startsWithIgnoreCase :: "jsstring \<Rightarrow> jsstring \<Rightarrow> bool" where
  "startsWithIgnoreCase s p = (map asciiUpper (take (length p) s) = map asciiUpper p)"

text \<open>The pattern \<open>/[?&]path=group(?:%2F|\/)([^&]+)/i\<close>.\<close>

definition matchPathParam :: "jsstring \<Rightarrow> jsstring option" where
  "matchPathParam s =
     (case s of
        [] \<Rightarrow> None
      | c # r \<Rightarrow>
          if c = 0x3F \<or> c = 0x26 then
            (if startsWithIgnoreCase r (ascii ''path=group'') then
               (if startsWithIgnoreCase (drop 10 r) (ascii ''%2F'')
                then captureWhile (\<lambda>c. c \<noteq> 0x26) (drop 13 r)
                else if startsWith (drop 10 r) (ascii ''/'')
                then captureWhile (\<lambda>c. c \<noteq> 0x26) (drop 11 r)
                else None)
             else None)
          else None)"

text \<open>The pattern \<open>/^(?:https?:\/\/)?([^\/\?\#]+)/\<close>: the optional scheme is tried first
  and given up when nothing can be captured after it.\<close>

definition matchHostFallback :: "jsstring \<Rightarrow> jsstring option" where
  "matchHostFallback s =
     (let capture = captureWhile (\<lambda>c. c \<noteq> 0x2F \<and> c \<noteq> 0x3F \<and> c \<noteq> 0x23);
          afterScheme =
            (if startsWith s (ascii ''https://'') then capture (drop 8 s)
             else if startsWith s (ascii ''http://'') then capture (drop 7 s)
             else None)
      in case afterScheme of Some h \<Rightarrow> Some h | None \<Rightarrow> capture s)"

section \<open>Discussion URLs (\<open>lib/DiscussionManager.ts\<close>)\<close>

text \<open>What the program reads of a parsed \<open>URL\<close>: its \<open>host\<close> and
  \<open>searchParams.get('host')\<close>.  The platform's URL parser and \<open>String.prototype.toLowerCase\<close>
  are parameters of the model; \<open>new URL\<close> throws a \<open>TypeError\<close> on what it cannot parse.\<close>

record parsedURL =
  url_host :: jsstring
  url_hostParam :: "jsstring option"

record platform =
  newURL :: "jsstring \<Rightarrow> error + parsedURL"
  toLowerCase :: "jsstring \<Rightarrow> jsstring"

definition extractRoomIdFromUrl :: "jsstring \<Rightarrow> error + jsstring option" where
  "extractRoomIdFromUrl url =
     (case searchRegex matchGroupPath url of
        Some directMatch \<Rightarrow> Inr (Some directMatch)
      | None \<Rightarrow>
          (case searchRegex matchPathParam url of
             Some goRocketChatMatch \<Rightarrow> bindE (decodeURIComponent goRocketChatMatch) (\<lambda>r. Inr (Some r))
           | None \<Rightarrow> Inr None))"

text \<open>The body of the \<open>try\<close> block of \<open>isValidDiscussionUrl\<close>, and the function with its
  \<open>catch\<close>, which turns every exception into \<open>false\<close>.\<close>

definition isValidDiscussionUrl_try :: "platform \<Rightarrow> jsstring \<Rightarrow> jsstring \<Rightarrow> error + bool" where
  "isValidDiscussionUrl_try pf url siteUrl =
     bindE (newURL pf url) (\<lambda>parsedUrl.
     bindE (newURL pf siteUrl) (\<lambda>parsedSiteUrl.
       if toLowerCase pf (url_host parsedUrl) = ascii ''go.rocket.chat'' then
         (case url_hostParam parsedUrl of
            None \<Rightarrow> Inr False
          | Some hostParam \<Rightarrow>
              if hostParam = [] then Inr False
              else Inr (toLowerCase pf hostParam = toLowerCase pf (url_host parsedSiteUrl)))
       else if toLowerCase pf (url_host parsedUrl) = toLowerCase pf (url_host parsedSiteUrl) then Inr True
       else Inr False))"

definition isValidDiscussionUrl :: "platform \<Rightarrow> jsstring \<Rightarrow> jsstring \<Rightarrow> error + bool" where
  "isValidDiscussionUrl pf url siteUrl =
     (if url = [] then Inr False
      else case isValidDiscussionUrl_try pf url siteUrl of
             Inl e \<Rightarrow> Inr False
           | Inr b \<Rightarrow> Inr b)"

definition buildDeepLink :: "platform \<Rightarrow> jsstring \<Rightarrow> jsstring \<Rightarrow> error + jsstring" where
  "buildDeepLink pf siteUrl path =
     (let host = (case newURL pf siteUrl of
                    Inr url \<Rightarrow> url_host url
                  | Inl e \<Rightarrow> (case matchHostFallback siteUrl of Some h \<Rightarrow> h | None \<Rightarrow> siteUrl))
      in bindE (encodeURIComponent host) (\<lambda>encodedHost.
         bindE (encodeURIComponent path) (\<lambda>encodedPath.
           Inr (ascii ''https://go.rocket.chat/room?host='' @ encodedHost @ ascii ''&path='' @ encodedPath))))"

text \<open>Strings in which every code unit is one that \<open>encodeURIComponent\<close> leaves alone.\<close>

definition urlSafe :: "jsstring \<Rightarrow> bool" where
  "urlSafe s = list_all (\<lambda>c. uriUnreserved (unat c)) s"

section \<open>The webhook payload (\<open>lib/types.ts\<close>)\<close>

datatype RFDState = Prediscussion | Ideation | Discussion | Published | Committed | Abandoned

record RFD =
  rfd_id :: jsstring
  rfd_title :: jsstring
  rfd_authors :: "jsstring list"
  rfd_state :: RFDState
  rfd_discussion :: "jsstring option"
  rfd_tags :: "jsstring list"
  rfd_content :: jsstring
  rfd_contentMD :: jsstring
  rfd_createdAt :: jsstring
  rfd_modifiedAt :: jsstring

record 'a FieldChange =
  change_old :: 'a
  change_new :: 'a

record RFDChanges =
  changes_title :: "jsstring FieldChange option"
  changes_state :: "RFDState FieldChange option"
  changes_authors :: "jsstring list FieldChange option"
  changes_tags :: "jsstring list FieldChange option"
  changes_discussion :: "jsstring FieldChange option"
  changes_content :: "bool option"

text \<open>\<open>event\<close> and \<open>rfd\<close> are typed as required, but the endpoint checks at run time that
  they are there, so both are optional here.\<close>

record WebhookPayload =
  payload_event :: "jsstring option"
  payload_timestamp :: jsstring
  payload_rfd :: "RFD option"
  payload_link :: jsstring
  payload_changes :: "RFDChanges option"

record DiscussionRef =
  ref_id :: jsstring
  ref_url :: jsstring

text \<open>The body of a response.  \<open>response_error = Some e\<close> stands for the field \<open>error\<close>
  holding the message of \<open>e\<close> (for \<open>Error m\<close>, the string \<open>m\<close>).\<close>

record WebhookResponse =
  response_success :: bool
  response_error :: "error option"
  response_message :: "jsstring option"
  response_discussion :: "DiscussionRef option"

datatype HttpStatusCode = OK | BAD_REQUEST | UNAUTHORIZED | INTERNAL_SERVER_ERROR

record IApiResponse =
  api_status :: HttpStatusCode
  api_content :: WebhookResponse

definition STATE_DESCRIPTIONS :: "RFDState \<Rightarrow> jsstring" where
  "STATE_DESCRIPTIONS s =
     (case s of
        Prediscussion \<Rightarrow> [0xD83D, 0xDD12] @ ascii '' Pre-Discussion - Not yet open for feedback''
      | Ideation \<Rightarrow> [0xD83D, 0xDCA1] @ ascii '' Ideation - Early idea, feedback welcome''
      | Discussion \<Rightarrow> [0xD83D, 0xDCAC] @ ascii '' Discussion - Actively seeking input''
      | Published \<Rightarrow> [0xD83D, 0xDCCB] @ ascii '' Published - Accepted, open for comments''
      | Committed \<Rightarrow> [0x2705] @ ascii '' Committed - Implemented''
      | Abandoned \<Rightarrow> [0x274C] @ ascii '' Abandoned - No longer being pursued'')"

text \<open>A value used as a condition: an absent or empty string is falsy.\<close>

definition truthy :: "jsstring option \<Rightarrow> bool" where
  "truthy v = (case v of None \<Rightarrow> False | Some s \<Rightarrow> s \<noteq> [])"

section \<open>The chat platform and the persistent store\<close>

record IUser =
  user_username :: jsstring
  user_emails :: "jsstring list"

record IRoom =
  room_id :: jsstring
  room_slugifiedName :: jsstring
  room_parentRoom :: "jsstring option"

record StoredDiscussion =
  stored_rfdId :: jsstring
  stored_roomId :: jsstring
  stored_roomUrl :: jsstring
  stored_createdAt :: jsstring

text \<open>
  Every call across the boundary of the app is recorded.  A room update is the pair
  \<open>getUpdater().room(id, user)\<close>, \<open>getUpdater().finish(updater)\<close>; creating a discussion and
  posting a message are \<open>getCreator().finish\<close> of the respective builder.
\<close>

datatype call =
    GetRoomByName jsstring
  | GetRoomById jsstring
  | GetAppUser
  | GetMembers jsstring
  | GetUserByUsername jsstring
  | CreateDiscussion IRoom jsstring jsstring IUser
  | SetDescription jsstring jsstring IUser
  | AddMember jsstring jsstring IUser
  | PostMessage IRoom IUser jsstring
  | ReadByAssociation jsstring
  | UpdateByAssociation jsstring StoredDiscussion

text \<open>
  The platform is not part of the repository.  What it answers is left open: each answer is a
  function of the calls made so far (and of the call), and may be an exception.  Only the
  persistent store has a meaning of its own: a map from association keys to records, written
  by \<open>updateByAssociation\<close> with \<open>upsert = true\<close>.
\<close>

record chat =
  reply_getByName :: "call list \<Rightarrow> jsstring \<Rightarrow> error + IRoom option"
  reply_getById :: "call list \<Rightarrow> jsstring \<Rightarrow> error + IRoom option"
  reply_getAppUser :: "call list \<Rightarrow> error + IUser option"
  reply_getMembers :: "call list \<Rightarrow> jsstring \<Rightarrow> error + IUser list"
  reply_getByUsername :: "call list \<Rightarrow> jsstring \<Rightarrow> error + IUser option"
  reply_finishDiscussion :: "call list \<Rightarrow> call \<Rightarrow> error + jsstring"
  reply_failure :: "call list \<Rightarrow> call \<Rightarrow> error option"
  reply_now :: "call list \<Rightarrow> jsstring"

record world =
  world_calls :: "call list"
  world_store :: "jsstring \<rightharpoonup> StoredDiscussion"

type_synonym 'a io = "world \<Rightarrow> (error + 'a) \<times> world"

definition returnIO :: "'a \<Rightarrow> 'a io" where
  "returnIO x = (\<lambda>w. (Inr x, w))"

definition throwIO :: "error \<Rightarrow> 'a io" where
  "throwIO e = (\<lambda>w. (Inl e, w))"

definition liftE :: "error + 'a \<Rightarrow> 'a io" where
  "liftE r = (\<lambda>w. (r, w))"

definition bindIO :: "'a io \<Rightarrow> ('a \<Rightarrow> 'b io) \<Rightarrow> 'b io" where
  "bindIO m f = (\<lambda>w. case m w of (Inl e, w') \<Rightarrow> (Inl e, w') | (Inr a, w') \<Rightarrow> f a w')"

text \<open>\<open>try { m } catch (e) { h e }\<close>.\<close>

definition catchIO :: "'a io \<Rightarrow> (error \<Rightarrow> 'a io) \<Rightarrow> 'a io" where
  "catchIO m h = (\<lambda>w. case m w of (Inl e, w') \<Rightarrow> h e w' | (Inr a, w') \<Rightarrow> (Inr a, w'))"

definition perform :: "call \<Rightarrow> (call list \<Rightarrow> error + 'a) \<Rightarrow> 'a io" where
  "perform c reply = (\<lambda>w. (reply (world_calls w), w\<lparr>world_calls := world_calls w @ [c]\<rparr>))"

definition failing :: "chat \<Rightarrow> call \<Rightarrow> call list \<Rightarrow> error + unit" where
  "failing ch c h = (case reply_failure ch h c of None \<Rightarrow> Inr () | Some e \<Rightarrow> Inl e)"

definition getByName :: "chat \<Rightarrow> jsstring \<Rightarrow> IRoom option io" where
  "getByName ch name = perform (GetRoomByName name) (\<lambda>h. reply_getByName ch h name)"

definition getById :: "chat \<Rightarrow> jsstring \<Rightarrow> IRoom option io" where
  "getById ch roomId = perform (GetRoomById roomId) (\<lambda>h. reply_getById ch h roomId)"

definition getAppUser :: "chat \<Rightarrow> IUser option io" where
  "getAppUser ch = perform GetAppUser (reply_getAppUser ch)"

definition getMembers :: "chat \<Rightarrow> jsstring \<Rightarrow> IUser list io" where
  "getMembers ch roomId = perform (GetMembers roomId) (\<lambda>h. reply_getMembers ch h roomId)"

definition getByUsername :: "chat \<Rightarrow> jsstring \<Rightarrow> IUser option io" where
  "getByUsername ch name = perform (GetUserByUsername name) (\<lambda>h. reply_getByUsername ch h name)"

definition finishDiscussion :: "chat \<Rightarrow> IRoom \<Rightarrow> jsstring \<Rightarrow> jsstring \<Rightarrow> IUser \<Rightarrow> jsstring io" where
  "finishDiscussion ch parentRoom displayName slug creator =
     perform (CreateDiscussion parentRoom displayName slug creator)
       (\<lambda>h. reply_finishDiscussion ch h (CreateDiscussion parentRoom displayName slug creator))"

definition finishUpdate :: "chat \<Rightarrow> call \<Rightarrow> unit io" where
  "finishUpdate ch c = perform c (failing ch c)"

definition readByAssociation :: "chat \<Rightarrow> jsstring \<Rightarrow> StoredDiscussion list io" where
  "readByAssociation ch key =
     (\<lambda>w. (case reply_failure ch (world_calls w) (ReadByAssociation key) of
              Some e \<Rightarrow> Inl e
            | None \<Rightarrow> Inr (case world_store w key of None \<Rightarrow> [] | Some d \<Rightarrow> [d]),
            w\<lparr>world_calls := world_calls w @ [ReadByAssociation key]\<rparr>))"

definition updateByAssociation :: "chat \<Rightarrow> jsstring \<Rightarrow> StoredDiscussion \<Rightarrow> unit io" where
  "updateByAssociation ch key data =
     (\<lambda>w. case reply_failure ch (world_calls w) (UpdateByAssociation key data) of
             Some e \<Rightarrow> (Inl e, w\<lparr>world_calls := world_calls w @ [UpdateByAssociation key data]\<rparr>)
           | None \<Rightarrow> (Inr (), w\<lparr>world_calls := world_calls w @ [UpdateByAssociation key data],
                               world_store := (world_store w)(key \<mapsto> data)\<rparr>))"

text \<open>\<open>new Date().toISOString()\<close>: the clock is read, nothing is recorded.\<close>

definition now :: "chat \<Rightarrow> jsstring io" where
  "now ch = (\<lambda>w. (Inr (reply_now ch (world_calls w)), w))"

section \<open>\<open>lib/DiscussionStore.ts\<close>\<close>

definition associationKey :: "jsstring \<Rightarrow> jsstring" where
  "associationKey rfdId = ascii ''rfd-discussion'' @ ascii '':'' @ rfdId"

definition getDiscussion :: "chat \<Rightarrow> jsstring \<Rightarrow> StoredDiscussion option io" where
  "getDiscussion ch rfdId =
     bindIO (readByAssociation ch (associationKey rfdId)) (\<lambda>results.
       case results of [] \<Rightarrow> returnIO None | d # ds \<Rightarrow> returnIO (Some d))"

definition storeDiscussion :: "chat \<Rightarrow> jsstring \<Rightarrow> jsstring \<Rightarrow> jsstring \<Rightarrow> unit io" where
  "storeDiscussion ch rfdId roomId roomUrl =
     bindIO (now ch) (\<lambda>t.
       updateByAssociation ch (associationKey rfdId)
         \<lparr>stored_rfdId = rfdId, stored_roomId = roomId, stored_roomUrl = roomUrl, stored_createdAt = t\<rparr>)"

definition hasDiscussion :: "chat \<Rightarrow> jsstring \<Rightarrow> bool io" where
  "hasDiscussion ch rfdId =
     bindIO (getDiscussion ch rfdId) (\<lambda>discussion.
       returnIO (case discussion of None \<Rightarrow> False | Some d \<Rightarrow> True))"

section \<open>\<open>lib/DiscussionManager.ts\<close>\<close>

text \<open>\<open>Array.prototype.join\<close> on strings.\<close>

fun joinWith :: "jsstring \<Rightarrow> jsstring list \<Rightarrow> jsstring" where
  "joinWith sep [] = []"
| "joinWith sep [x] = x"
| "joinWith sep (x # y # xs) = x @ sep @ joinWith sep (y # xs)"

text \<open>\<open>String.prototype.trim\<close>: white space and line terminators are removed at both ends.\<close>

definition isWhiteSpace :: "16 word \<Rightarrow> bool" where
  "isWhiteSpace c =
     ((0x09 \<le> c \<and> c \<le> 0x0D) \<or> c = 0x20 \<or> c = 0xA0 \<or> c = 0x1680
      \<or> (0x2000 \<le> c \<and> c \<le> 0x200A) \<or> c = 0x2028 \<or> c = 0x2029 \<or> c = 0x202F
      \<or> c = 0x205F \<or> c = 0x3000 \<or> c = 0xFEFF)"

definition trim :: "jsstring \<Rightarrow> jsstring" where
  "trim s = rev (dropWhile isWhiteSpace (rev (dropWhile isWhiteSpace s)))"

definition isSlugChar :: "16 word \<Rightarrow> bool" where
  "isSlugChar c = ((0x61 \<le> c \<and> c \<le> 0x7A) \<or> (0x30 \<le> c \<and> c \<le> 0x39))"

text \<open>\<open>replace(/[^a-z0-9]+/g, '-')\<close>: every maximal run of other characters becomes one hyphen.\<close>

function replaceRuns :: "jsstring \<Rightarrow> jsstring" where
  "replaceRuns [] = []"
| "replaceRuns (c # s) =
     (if isSlugChar c then c # replaceRuns s
      else 0x2D # replaceRuns (dropWhile (\<lambda>d. \<not> isSlugChar d) s))"
  by pat_completeness auto
termination
  by (relation "measure length") (auto simp: length_dropWhile_le less_Suc_eq_le)

text \<open>\<open>slugify\<close>; the second \<open>replace\<close>, \<open>/^-+|-+$/g\<close>, removes the hyphens at both ends.\<close>

definition slugify :: "platform \<Rightarrow> jsstring \<Rightarrow> jsstring" where
  "slugify pf text' =
     take 50 (rev (dropWhile (\<lambda>c. c = 0x2D) (rev (dropWhile (\<lambda>c. c = 0x2D) (replaceRuns (toLowerCase pf text'))))))"

definition buildDescription :: "RFD \<Rightarrow> jsstring \<Rightarrow> jsstring" where
  "buildDescription rfd rfdLink =
     STATE_DESCRIPTIONS (rfd_state rfd) @ ascii '' | Tags: ''
       @ (if joinWith (ascii '', '') (rfd_tags rfd) = [] then ascii ''none''
          else joinWith (ascii '', '') (rfd_tags rfd))"

definition setRoomDescription :: "chat \<Rightarrow> IRoom \<Rightarrow> jsstring \<Rightarrow> IUser \<Rightarrow> unit io" where
  "setRoomDescription ch room description user =
     catchIO (finishUpdate ch (SetDescription (room_id room) description user)) (\<lambda>e. returnIO ())"

definition postMessage :: "chat \<Rightarrow> IRoom \<Rightarrow> IUser \<Rightarrow> jsstring \<Rightarrow> unit io" where
  "postMessage ch room sender text' = finishUpdate ch (PostMessage room sender text')"

text \<open>The pattern \<open>/<([^>]+)>/\<close>.\<close>

definition matchAngle :: "jsstring \<Rightarrow> jsstring option" where
  "matchAngle s =
     (case s of
        [] \<Rightarrow> None
      | c # r \<Rightarrow>
          if c = 0x3C then
            (if takeWhile (\<lambda>d. d \<noteq> 0x3E) r = [] then None
             else if drop (length (takeWhile (\<lambda>d. d \<noteq> 0x3E) r)) r = [] then None
             else Some (takeWhile (\<lambda>d. d \<noteq> 0x3E) r))
          else None)"

text \<open>The loop of \<open>addAuthorsToDiscussion\<close> over the author tokens.\<close>

fun addAuthorsLoop :: "platform \<Rightarrow> chat \<Rightarrow> IRoom \<Rightarrow> IUser \<Rightarrow> IUser list \<Rightarrow> jsstring list \<Rightarrow> unit io" where
  "addAuthorsLoop pf ch discussion appUser members [] = returnIO ()"
| "addAuthorsLoop pf ch discussion appUser members (authorInput # rest) =
     (if trim authorInput = [] then addAuthorsLoop pf ch discussion appUser members rest
      else
        let trimmedInput = trim authorInput;
            email = (case searchRegex matchAngle trimmedInput of
                       Some emailMatch \<Rightarrow> toLowerCase pf emailMatch
                     | None \<Rightarrow> toLowerCase pf trimmedInput);
            byEmail = find (\<lambda>m. list_ex (\<lambda>e. toLowerCase pf e = email) (user_emails m)) members;
            byName = (case byEmail of
                        Some u \<Rightarrow> Some u
                      | None \<Rightarrow>
                          find (\<lambda>m. toLowerCase pf (user_username m) = email
                                    \<or> toLowerCase pf (user_username m) = toLowerCase pf trimmedInput) members)
        in bindIO (case byName of
                     Some u \<Rightarrow> returnIO (Some u)
                   | None \<Rightarrow>
                       if 0x40 \<in> set email then returnIO None
                       else catchIO (getByUsername ch trimmedInput) (\<lambda>e. returnIO None)) (\<lambda>user.
           bindIO (case user of
                     Some u \<Rightarrow>
                       catchIO (finishUpdate ch (AddMember (room_id discussion) (user_username u) appUser))
                         (\<lambda>e. returnIO ())
                   | None \<Rightarrow> returnIO ()) (\<lambda>done'.
           addAuthorsLoop pf ch discussion appUser members rest)))"

definition addAuthorsToDiscussion :: "platform \<Rightarrow> chat \<Rightarrow> IRoom \<Rightarrow> IRoom \<Rightarrow> jsstring list \<Rightarrow> unit io" where
  "addAuthorsToDiscussion pf ch discussion parentRoom authorEmails =
     bindIO (getAppUser ch) (\<lambda>appUser.
       case appUser of
         None \<Rightarrow> returnIO ()
       | Some user \<Rightarrow>
           bindIO (getMembers ch (room_id parentRoom)) (\<lambda>members.
             addAuthorsLoop pf ch discussion user members authorEmails))"

definition createDiscussion ::
  "platform \<Rightarrow> chat \<Rightarrow> jsstring \<Rightarrow> RFD \<Rightarrow> jsstring \<Rightarrow> jsstring \<Rightarrow> jsstring \<Rightarrow> DiscussionRef option io" where
  "createDiscussion pf ch parentChannel rfd rfdLink siteUrl prefix =
     bindIO (getByName ch parentChannel) (\<lambda>parentRoom'.
     case parentRoom' of
       None \<Rightarrow> throwIO (Error (ascii ''Parent channel '' @ [0x27] @ parentChannel @ [0x27] @ ascii '' not found''))
     | Some parentRoom \<Rightarrow>
     bindIO (getAppUser ch) (\<lambda>appUser'.
     case appUser' of
       None \<Rightarrow> throwIO (Error (ascii ''App user not found''))
     | Some appUser \<Rightarrow>
     let discussionName = prefix @ ascii ''-'' @ rfd_id rfd @ ascii '': '' @ rfd_title rfd;
         description = buildDescription rfd rfdLink
     in
     bindIO (finishDiscussion ch parentRoom discussionName
               (slugify pf (toLowerCase pf prefix @ ascii ''-'' @ rfd_id rfd @ ascii ''-'' @ rfd_title rfd))
               appUser) (\<lambda>discussionId.
     if discussionId = [] then throwIO (Error (ascii ''Failed to create discussion''))
     else
     bindIO (getById ch discussionId) (\<lambda>discussion'.
     case discussion' of
       None \<Rightarrow> throwIO (Error (ascii ''Discussion created but could not be retrieved''))
     | Some discussion \<Rightarrow>
     let fullDescription = description @ [0x0A, 0x0A, 0xD83D, 0xDCDD] @ ascii '' View ADR: '' @ rfdLink
     in
     bindIO (setRoomDescription ch discussion fullDescription appUser) (\<lambda>described.
     bindIO (addAuthorsToDiscussion pf ch discussion parentRoom (rfd_authors rfd)) (\<lambda>added.
     bindIO (postMessage ch discussion appUser
               ([0xD83C, 0xDF89] @ ascii '' **New '' @ prefix @ ascii '' Created**'' @ [0x0A, 0x0A]
                @ ascii ''**'' @ rfd_title rfd @ ascii ''**'' @ [0x0A, 0x0A]
                @ STATE_DESCRIPTIONS (rfd_state rfd) @ [0x0A, 0x0A]
                @ [0xD83D, 0xDD17] @ ascii '' [Read the full '' @ prefix @ ascii ''](''
                @ rfdLink @ ascii '')'' @ [0x0A, 0x0A]
                @ ascii ''_Authors: '' @ joinWith (ascii '', '') (rfd_authors rfd) @ ascii ''_'')) (\<lambda>posted.
     bindIO (liftE (buildDeepLink pf siteUrl (ascii ''group/'' @ discussionId))) (\<lambda>discussionUrl.
       returnIO (Some \<lparr>ref_id = discussionId, ref_url = discussionUrl\<rparr>)))))))))"

text \<open>The handlers of the single fields of \<open>updateDiscussion\<close>, in the order of the source;
  each returns the lines it adds to \<open>updateParts\<close>.\<close>

definition updateState :: "chat \<Rightarrow> IRoom \<Rightarrow> IUser \<Rightarrow> RFD \<Rightarrow> jsstring \<Rightarrow> RFDChanges \<Rightarrow> jsstring list io" where
  "updateState ch discussion appUser rfd rfdLink changes =
     (case changes_state changes of
        None \<Rightarrow> returnIO []
      | Some c \<Rightarrow>
          bindIO (setRoomDescription ch discussion
                    (buildDescription rfd rfdLink @ [0x0A, 0x0A, 0xD83D, 0xDCDD] @ ascii '' View ADR: '' @ rfdLink)
                    appUser) (\<lambda>described.
            returnIO [[0xD83D, 0xDCCA] @ ascii '' **Status changed:** '' @ STATE_DESCRIPTIONS (change_old c)
                      @ ascii '' '' @ [0x2192] @ ascii '' '' @ STATE_DESCRIPTIONS (change_new c)]))"

definition updateTitle :: "RFDChanges \<Rightarrow> jsstring list" where
  "updateTitle changes =
     (case changes_title changes of
        None \<Rightarrow> []
      | Some c \<Rightarrow>
          [[0xD83D, 0xDCDD] @ ascii '' **Title changed:** '' @ [0x22] @ change_old c @ [0x22]
           @ ascii '' '' @ [0x2192] @ ascii '' '' @ [0x22] @ change_new c @ [0x22]])"

definition updateContent :: "jsstring \<Rightarrow> RFDChanges \<Rightarrow> jsstring list" where
  "updateContent rfdLink changes =
     (case changes_content changes of
        Some True \<Rightarrow>
          [[0xD83D, 0xDCC4] @ ascii '' **Content updated** - [View the latest version]('' @ rfdLink @ ascii '')'']
      | _ \<Rightarrow> [])"

definition updateAuthors :: "platform \<Rightarrow> chat \<Rightarrow> IRoom \<Rightarrow> RFDChanges \<Rightarrow> jsstring list io" where
  "updateAuthors pf ch discussion changes =
     (case changes_authors changes of
        None \<Rightarrow> returnIO []
      | Some c \<Rightarrow>
          let newAuthors = filter (\<lambda>a. a \<notin> set (change_old c)) (change_new c)
          in if newAuthors = [] then returnIO []
             else
               bindIO (case room_parentRoom discussion of
                         None \<Rightarrow> returnIO None
                       | Some parentId \<Rightarrow> getById ch parentId) (\<lambda>parentRoom.
               bindIO (case parentRoom of
                         None \<Rightarrow> returnIO ()
                       | Some room \<Rightarrow> addAuthorsToDiscussion pf ch discussion room newAuthors) (\<lambda>added.
                 returnIO [[0xD83D, 0xDC64] @ ascii '' **New authors added:** ''
                           @ joinWith (ascii '', '') newAuthors])))"

definition updateTags :: "RFDChanges \<Rightarrow> jsstring list" where
  "updateTags changes =
     (case changes_tags changes of
        None \<Rightarrow> []
      | Some c \<Rightarrow>
          let addedTags = filter (\<lambda>t. t \<notin> set (change_old c)) (change_new c);
              removedTags = filter (\<lambda>t. t \<notin> set (change_new c)) (change_old c)
          in if addedTags = [] \<and> removedTags = [] then []
             else [[0xD83C, 0xDFF7, 0xFE0F] @ ascii '' **Tags changed:**''
                   @ (if addedTags = [] then [] else ascii '' +'' @ joinWith (ascii '', +'') addedTags)
                   @ (if removedTags = [] then [] else ascii '' -'' @ joinWith (ascii '', -'') removedTags)])"

definition updateDiscussion ::
  "platform \<Rightarrow> chat \<Rightarrow> jsstring \<Rightarrow> RFD \<Rightarrow> jsstring \<Rightarrow> RFDChanges \<Rightarrow> unit io" where
  "updateDiscussion pf ch discussionUrl rfd rfdLink changes =
     bindIO (liftE (extractRoomIdFromUrl discussionUrl)) (\<lambda>roomId'.
     case roomId' of
       None \<Rightarrow> throwIO (Error (ascii ''Could not extract room ID from URL: '' @ discussionUrl))
     | Some roomId \<Rightarrow>
     if roomId = [] then throwIO (Error (ascii ''Could not extract room ID from URL: '' @ discussionUrl))
     else
     bindIO (getById ch roomId) (\<lambda>discussion'.
     case discussion' of
       None \<Rightarrow> throwIO (Error (ascii ''Discussion room with ID '' @ [0x27] @ roomId @ [0x27] @ ascii '' not found''))
     | Some discussion \<Rightarrow>
     bindIO (getAppUser ch) (\<lambda>appUser'.
     case appUser' of
       None \<Rightarrow> throwIO (Error (ascii ''App user not found''))
     | Some appUser \<Rightarrow>
     bindIO (updateState ch discussion appUser rfd rfdLink changes) (\<lambda>stateParts.
     bindIO (updateAuthors pf ch discussion changes) (\<lambda>authorParts.
       let updateParts = stateParts @ updateTitle changes @ updateContent rfdLink changes
                         @ authorParts @ updateTags changes
       in if updateParts = [] then returnIO ()
          else postMessage ch discussion appUser
                 ([0xD83D, 0xDD04] @ ascii '' **ADR Updated**'' @ [0x0A, 0x0A]
                  @ joinWith [0x0A, 0x0A] updateParts))))))"

section \<open>The webhook endpoint (\<open>endpoints/WebhookEndpoint.ts\<close>, the revision with the store)\<close>

text \<open>
  The settings of the app (\<open>settings.ts\<close>); a string setting that was never set is the
  empty string.  \<open>server_Site_Url\<close> is what the server's own \<open>Site_Url\<close> setting answers.
  Reading a setting is modelled as reading this record.
\<close>

record settings =
  setting_parent_channel :: jsstring
  setting_webhook_secret :: jsstring
  setting_site_url :: jsstring
  setting_prefix :: jsstring
  setting_overwrite_invalid_discussion_url :: bool
  setting_use_deep_links :: bool
  server_Site_Url :: "error + jsstring"

text \<open>A request: the header \<open>x-rfd-signature\<close>, the parsed content, and
  \<open>JSON.stringify(request.content)\<close>.\<close>

record IApiRequest =
  request_signature :: "jsstring option"
  request_content :: "WebhookPayload option"
  request_body :: jsstring

definition errorResponse :: "HttpStatusCode \<Rightarrow> error \<Rightarrow> IApiResponse" where
  "errorResponse status e =
     \<lparr>api_status = status,
      api_content = \<lparr>response_success = False, response_error = Some e,
                     response_message = None, response_discussion = None\<rparr>\<rparr>"

definition jsonResponse :: "WebhookResponse \<Rightarrow> IApiResponse" where
  "jsonResponse content' = \<lparr>api_status = OK, api_content = content'\<rparr>"

definition successResponse :: "jsstring option \<Rightarrow> DiscussionRef option \<Rightarrow> IApiResponse" where
  "successResponse message discussion =
     jsonResponse \<lparr>response_success = True, response_error = None,
                   response_message = message, response_discussion = discussion\<rparr>"

text \<open>The string of an optional value that is known to be there (the empty string otherwise).\<close>

definition stringOf :: "jsstring option \<Rightarrow> jsstring" where
  "stringOf v = (case v of None \<Rightarrow> [] | Some s \<Rightarrow> s)"

text \<open>The endpoint's own \<open>extractRoomIdFromUrl\<close> knows the direct form only.\<close>

definition endpoint_extractRoomIdFromUrl :: "jsstring \<Rightarrow> jsstring option" where
  "endpoint_extractRoomIdFromUrl url = searchRegex matchGroupPath url"

definition handleCreated ::
  "platform \<Rightarrow> chat \<Rightarrow> RFD \<Rightarrow> jsstring \<Rightarrow> jsstring \<Rightarrow> jsstring \<Rightarrow> jsstring \<Rightarrow> IApiResponse io" where
  "handleCreated pf ch rfd link parentChannel siteUrl prefix =
     (if truthy (rfd_discussion rfd) then
        returnIO (successResponse (Some (ascii ''Discussion already exists''))
          (Some \<lparr>ref_id = stringOf (endpoint_extractRoomIdFromUrl (stringOf (rfd_discussion rfd))),
                 ref_url = stringOf (rfd_discussion rfd)\<rparr>))
      else
        bindIO (getDiscussion ch (rfd_id rfd)) (\<lambda>existingDiscussion.
        case existingDiscussion of
          Some existing \<Rightarrow>
            returnIO (successResponse (Some (ascii ''Discussion already exists (from persistence)''))
              (Some \<lparr>ref_id = stored_roomId existing, ref_url = stored_roomUrl existing\<rparr>))
        | None \<Rightarrow>
            bindIO (createDiscussion pf ch parentChannel rfd link siteUrl prefix) (\<lambda>discussion'.
            case discussion' of
              None \<Rightarrow> returnIO (errorResponse INTERNAL_SERVER_ERROR (Error (ascii ''Failed to create discussion'')))
            | Some discussion \<Rightarrow>
                bindIO (storeDiscussion ch (rfd_id rfd) (ref_id discussion) (ref_url discussion)) (\<lambda>stored.
                  returnIO (successResponse None
                    (Some \<lparr>ref_id = ref_id discussion, ref_url = ref_url discussion\<rparr>))))))"

definition handleUpdated ::
  "platform \<Rightarrow> chat \<Rightarrow> RFD \<Rightarrow> jsstring \<Rightarrow> RFDChanges option \<Rightarrow> jsstring \<Rightarrow> jsstring \<Rightarrow> jsstring
     \<Rightarrow> IApiResponse io" where
  "handleUpdated pf ch rfd link changes' parentChannel siteUrl prefix =
     bindIO (if truthy (rfd_discussion rfd) then returnIO (rfd_discussion rfd)
             else bindIO (getDiscussion ch (rfd_id rfd)) (\<lambda>existingDiscussion.
                    case existingDiscussion of
                      Some existing \<Rightarrow> returnIO (Some (stored_roomUrl existing))
                    | None \<Rightarrow> returnIO (rfd_discussion rfd))) (\<lambda>discussionUrl.
     if truthy discussionUrl then
       (case changes' of
          None \<Rightarrow> returnIO (successResponse (Some (ascii ''No changes to process'')) None)
        | Some changes \<Rightarrow>
            bindIO (updateDiscussion pf ch (stringOf discussionUrl) (rfd\<lparr>rfd_discussion := discussionUrl\<rparr>)
                      link changes) (\<lambda>updated.
              returnIO (successResponse None None)))
     else
       bindIO (createDiscussion pf ch parentChannel rfd link siteUrl prefix) (\<lambda>discussion'.
       case discussion' of
         None \<Rightarrow> returnIO (errorResponse INTERNAL_SERVER_ERROR (Error (ascii ''Failed to create discussion'')))
       | Some discussion \<Rightarrow>
           bindIO (storeDiscussion ch (rfd_id rfd) (ref_id discussion) (ref_url discussion)) (\<lambda>stored.
             returnIO (successResponse None
               (Some \<lparr>ref_id = ref_id discussion, ref_url = ref_url discussion\<rparr>)))))"

text \<open>
  The body of the \<open>try\<close> block of \<open>post\<close>.  The endpoint imports \<open>verifySignature\<close> from
  \<open>lib/crypto\<close>, of which the sources hold two revisions, so the function is a parameter:
  \<open>verifySignature_lib\<close> or \<open>verifySignature_hmac\<close>.
\<close>

definition post_try ::
  "(jsstring \<Rightarrow> jsstring option \<Rightarrow> jsstring \<Rightarrow> error + bool) \<Rightarrow> platform \<Rightarrow> chat \<Rightarrow> settings
     \<Rightarrow> IApiRequest \<Rightarrow> IApiResponse io" where
  "post_try verify pf ch cfg request =
     (if setting_webhook_secret cfg = [] then
        returnIO (errorResponse INTERNAL_SERVER_ERROR (Error (ascii ''Webhook secret not configured'')))
      else if setting_parent_channel cfg = [] then
        returnIO (errorResponse INTERNAL_SERVER_ERROR (Error (ascii ''Parent channel not configured'')))
      else
        bindIO (liftE (verify (request_body request) (request_signature request) (setting_webhook_secret cfg)))
          (\<lambda>valid.
        if valid then
          (case request_content request of
             None \<Rightarrow> returnIO (errorResponse BAD_REQUEST (Error (ascii ''Invalid payload'')))
           | Some payload \<Rightarrow>
               if truthy (payload_event payload) then
                 (case payload_rfd payload of
                    None \<Rightarrow> returnIO (errorResponse BAD_REQUEST (Error (ascii ''Invalid payload'')))
                  | Some rfd \<Rightarrow>
                      let prefix = (if setting_prefix cfg = [] then ascii ''RFD'' else setting_prefix cfg);
                          siteUrl = (if setting_site_url cfg = []
                                     then (case server_Site_Url cfg of
                                             Inl e \<Rightarrow> ascii ''https://chat.example.com''
                                           | Inr url \<Rightarrow> url)
                                     else setting_site_url cfg)
                      in if payload_event payload = Some (ascii ''rfd.created'') then
                           handleCreated pf ch rfd (payload_link payload) (setting_parent_channel cfg) siteUrl prefix
                         else if payload_event payload = Some (ascii ''rfd.updated'') then
                           handleUpdated pf ch rfd (payload_link payload) (payload_changes payload)
                             (setting_parent_channel cfg) siteUrl prefix
                         else
                           returnIO (errorResponse BAD_REQUEST
                             (Error (ascii ''Unknown event type: '' @ stringOf (payload_event payload)))))
               else returnIO (errorResponse BAD_REQUEST (Error (ascii ''Invalid payload''))))
        else returnIO (errorResponse UNAUTHORIZED (Error (ascii ''Invalid signature'')))))"

text \<open>\<open>verifySignature\<close> of \<open>lib/crypto.ts\<close> as the parameter of \<open>post_try\<close>: it does not throw.\<close>

definition verifySignature_lib :: "jsstring \<Rightarrow> jsstring option \<Rightarrow> jsstring \<Rightarrow> error + bool" where
  "verifySignature_lib body signature secret = Inr (verifySignature body signature secret)"

text \<open>\<open>post\<close>: the \<open>catch\<close> turns every exception into an internal-error response.\<close>

definition post ::
  "(jsstring \<Rightarrow> jsstring option \<Rightarrow> jsstring \<Rightarrow> error + bool) \<Rightarrow> platform \<Rightarrow> chat \<Rightarrow> settings
     \<Rightarrow> IApiRequest \<Rightarrow> world \<Rightarrow> IApiResponse \<times> world" where
  "post verify pf ch cfg request w =
     (case post_try verify pf ch cfg request w of
        (Inl e, w') \<Rightarrow> (errorResponse INTERNAL_SERVER_ERROR e, w')
      | (Inr response, w') \<Rightarrow> (response, w'))"

section \<open>Notions used to state the claims\<close>

fun isCreateDiscussion :: "call \<Rightarrow> bool" where
  "isCreateDiscussion (CreateDiscussion parentRoom displayName slug creator) = True"
| "isCreateDiscussion c = False"

text \<open>The number of room-creation calls made so far.\<close>

definition creations :: "world \<Rightarrow> nat" where
  "creations w = length (filter isCreateDiscussion (world_calls w))"

text \<open>The calls that only read: the store lookup, the room lookup by id, the app-user lookup.\<close>

fun isLookup :: "call \<Rightarrow> bool" where
  "isLookup (ReadByAssociation key) = True"
| "isLookup (GetRoomById roomId) = True"
| "isLookup GetAppUser = True"
| "isLookup c = False"

text \<open>A change set with every field absent or false.\<close>

definition emptyChanges :: "RFDChanges \<Rightarrow> bool" where
  "emptyChanges c =
     (changes_title c = None \<and> changes_state c = None \<and> changes_authors c = None
      \<and> changes_tags c = None \<and> changes_discussion c = None
      \<and> (changes_content c = None \<or> changes_content c = Some False))"

text \<open>\<open>m\<close> leaves the store as it is and only makes calls that satisfy \<open>P\<close>.\<close>

definition onlyCalls :: "(call \<Rightarrow> bool) \<Rightarrow> 'a io \<Rightarrow> bool" where
  "onlyCalls P m =
     (\<forall>w. world_store (snd (m w)) = world_store w
          \<and> (\<exists>cs. world_calls (snd (m w)) = world_calls w @ cs \<and> list_all P cs))"

section \<open>A sample environment for the concrete examples\<close>

text \<open>
  A platform whose URL parser rejects its argument (as \<open>new URL\<close> does for a string without
  a scheme; \<open>buildDeepLink\<close> then takes the host with its own pattern) and which lowers the
  case of ASCII letters, and a chat server
  that knows the channel \<open>rfds\<close>, finds every room id, has an app user, names each new
  discussion \<open>ROOM123\<close>, never fails, and whose clock shows \<open>T\<close> and one \<open>+\<close> for each
  call made so far.
\<close>

definition asciiLower :: "16 word \<Rightarrow> 16 word" where
  "asciiLower c = (if 0x41 \<le> c \<and> c \<le> 0x5A then c + 0x20 else c)"

definition samplePlatform :: platform where
  "samplePlatform = \<lparr>newURL = (\<lambda>u. Inl TypeError), toLowerCase = map asciiLower\<rparr>"

definition sampleChat :: chat where
  "sampleChat =
     \<lparr>reply_getByName = (\<lambda>h name. Inr (if name = ascii ''rfds''
          then Some \<lparr>room_id = ascii ''PARENT'', room_slugifiedName = ascii ''rfds'', room_parentRoom = None\<rparr>
          else None)),
      reply_getById = (\<lambda>h roomId. Inr (Some \<lparr>room_id = roomId, room_slugifiedName = roomId,
                                                room_parentRoom = Some (ascii ''PARENT'')\<rparr>)),
      reply_getAppUser = (\<lambda>h. Inr (Some \<lparr>user_username = ascii ''rfd.bot'', user_emails = []\<rparr>)),
      reply_getMembers = (\<lambda>h roomId. Inr []),
      reply_getByUsername = (\<lambda>h name. Inr None),
      reply_finishDiscussion = (\<lambda>h c. Inr (ascii ''ROOM123'')),
      reply_failure = (\<lambda>h c. None),
      reply_now = (\<lambda>h. ascii ''T'' @ replicate (length h) 0x2B)\<rparr>"

definition sampleSettings :: settings where
  "sampleSettings =
     \<lparr>setting_parent_channel = ascii ''rfds'', setting_webhook_secret = ascii ''s3cret'',
      setting_site_url = ascii ''https://chat.example.com'', setting_prefix = ascii ''RFD'',
      setting_overwrite_invalid_discussion_url = True, setting_use_deep_links = True,
      server_Site_Url = Inr (ascii ''https://chat.example.com'')\<rparr>"

definition sampleRFD :: RFD where
  "sampleRFD =
     \<lparr>rfd_id = ascii ''0042'', rfd_title = ascii ''Implement caching layer'',
      rfd_authors = [ascii ''alice@example.com''], rfd_state = Ideation, rfd_discussion = None,
      rfd_tags = [ascii ''performance''], rfd_content = [], rfd_contentMD = [],
      rfd_createdAt = [], rfd_modifiedAt = []\<rparr>"

definition sampleRequest :: "jsstring \<Rightarrow> RFD \<Rightarrow> RFDChanges option \<Rightarrow> IApiRequest" where
  "sampleRequest event rfd changes =
     \<lparr>request_signature = Some (ascii ''sha256=00''),
      request_content = Some \<lparr>payload_event = Some event, payload_timestamp = ascii ''2026-02-18T22:12:27Z'',
                              payload_rfd = Some rfd, payload_link = ascii ''https://adrs.example.com/rfd/0042'',
                              payload_changes = changes\<rparr>,
      request_body = ascii ''{}''\<rparr>"

definition noChanges :: RFDChanges where
  "noChanges =
     \<lparr>changes_title = None, changes_state = None, changes_authors = None, changes_tags = None,
      changes_discussion = None, changes_content = None\<rparr>"

definition emptyWorld :: world where
  "emptyWorld = \<lparr>world_calls = [], world_store = Map.empty\<rparr>"

section \<open>Properties of the digest code\<close>

lemma bindE_Inl [simp]: "bindE (Inl e) f = Inl e"
  by (simp add: bindE_def)

lemma bindE_Inr [simp]: "bindE (Inr a) f = f a"
  by (simp add: bindE_def)

lemma readWords_short:
  "length view < offset + 64 \<Longrightarrow> readWords view offset [0..<16] = Inl RangeError"
  by (simp add: upt_rec numeral_nat getUint32_def bindE_def split: sum.splits)

lemma readWords_error: "readWords view offset is = Inl e \<Longrightarrow> e = RangeError"
  by (induction "is" arbitrary: e) (auto simp: getUint32_def bindE_def split: if_splits sum.splits)

lemma processBlocks_overrun:
  "of_nat (length view) < totalLength \<Longrightarrow> offset \<le> length view
     \<Longrightarrow> processBlocks view totalLength offset hs = Inl RangeError"
proof (induction view totalLength offset hs rule: processBlocks.induct)
  case (1 view totalLength offset hs)
  from "1.prems" have lt: "of_nat offset < totalLength"
    by (meson of_nat_le_iff le_less_trans)
  show ?case
  proof (cases "readWords view offset [0..<16]")
    case (Inl e)
    with lt readWords_error [OF Inl] show ?thesis
      by (subst processBlocks.simps) simp
  next
    case (Inr W16)
    have "\<not> length view < offset + 64"
      using readWords_short [of view offset] Inr by auto
    then have "offset + 64 \<le> length view" by simp
    with "1.IH" [OF lt Inr "1.prems"(1)] lt Inr show ?thesis
      by (subst processBlocks.simps) simp
  qed
qed

lemma padding_mod8:
  "(((448 - (int L * 8 + 1) mod 512) + 512) mod 512) mod 8 = 7"
proof -
  define x where "x = (int L * 8 + 1) mod 512"
  have x: "x mod 8 = 1"
    by (simp add: x_def mod_mod_cancel)
  have "((448 - x) + 512) mod 512 mod 8 = ((448 - x) + 512) mod 8"
    by (simp add: mod_mod_cancel)
  also have "\<dots> = (960 - x) mod 8" by simp
  also have "\<dots> = (960 mod 8 - x mod 8) mod 8" by (rule mod_diff_eq [symmetric])
  also have "\<dots> = 7" by (simp add: x)
  finally show ?thesis by (simp add: x_def)
qed

lemma eighths: "p mod 8 = 7 \<Longrightarrow> (of_int p / 8 :: rat) = of_int (p div 8) + 7 / 8"
proof -
  assume h: "p mod 8 = 7"
  have "p = 8 * (p div 8) + 7" using h mult_div_mod_eq [of 8 p] by simp
  then have "(of_int p :: rat) = 8 * of_int (p div 8) + 7"
    by (metis of_int_add of_int_mult of_int_numeral)
  then show ?thesis by simp
qed

lemma floor_78: "0 \<le> z \<Longrightarrow> \<lfloor>(of_int z + 7 / 8 :: rat)\<rfloor> = z"
  by (simp add: floor_unique)

lemma ToIndex_fraction:
  "0 \<le> z \<Longrightarrow> ToIndex (of_int z + 7 / 8) = Inr n \<Longrightarrow> n = nat z"
proof -
  assume z: "0 \<le> z" and t: "ToIndex (of_int z + 7 / 8) = Inr n"
  have nonneg: "(0 :: rat) \<le> of_int z + 7 / 8" using z by simp
  from t show ?thesis
    unfolding ToIndex_def Let_def if_P [OF nonneg] floor_78 [OF z]
    by (simp split: if_splits)
qed

lemma ToIndex_error: "ToIndex x = Inl e \<Longrightarrow> e = RangeError"
  by (auto simp: ToIndex_def Let_def split: if_splits)

lemma Uint8Array_set_error: "Uint8Array_set t s off = Inl e \<Longrightarrow> e = RangeError"
  by (auto simp: Uint8Array_set_def split: if_splits)

lemma Uint8Array_set_length: "Uint8Array_set t s off = Inr r \<Longrightarrow> length r = length t"
  by (auto simp: Uint8Array_set_def split: if_splits)

lemma setUint32_error: "setUint32 view off v = Inl e \<Longrightarrow> e = RangeError"
  by (auto simp: setUint32_def bindE_def ToIndex_def Let_def split: if_splits sum.splits)

lemma setUint32_length: "setUint32 view off v = Inr r \<Longrightarrow> length r = length view"
  by (auto simp: setUint32_def bindE_def bytesOfUint32_def split: if_splits sum.splits)

lemma totalLength_eighths:
  "p mod 8 = 7 \<Longrightarrow> (of_nat L + 1 + of_int p / 8 + 8 :: rat) = of_int (int L + 9 + p div 8) + 7 / 8"
  by (simp add: eighths)

lemma totalLength_fraction:
  "(of_nat L + 1 + of_int (((448 - (int L * 8 + 1) mod 512) + 512) mod 512) / 8 + 8 :: rat)
     = of_int (int L + 9 + (((448 - (int L * 8 + 1) mod 512) + 512) mod 512) div 8) + 7 / 8"
  by (rule totalLength_eighths [OF padding_mod8])

lemma sha256Bytes_throws: "sha256Bytes data = Inl RangeError"
proof -
  define p where "p = ((448 - (int (length data) * 8 + 1) mod 512) + 512) mod 512"
  define z where "z = int (length data) + 9 + p div 8"
  define totalLength :: rat where "totalLength = of_int z + 7 / 8"
  have p0: "0 \<le> p" by (simp add: p_def)
  then have z0: "0 \<le> z" by (simp add: z_def pos_imp_zdiv_nonneg_iff)
  have tl: "(of_nat (length data) + 1 + of_int p / 8 + 8 :: rat) = totalLength"
    unfolding totalLength_def z_def p_def by (rule totalLength_fraction)
  have unfold: "sha256Bytes data =
      bindE (ToIndex totalLength) (\<lambda>n.
         bindE (Uint8Array_set (replicate n 0) data 0) (\<lambda>padded0.
         bindE (setUint32 (padded0[length data := 0x80]) (totalLength - 4) (word_of_int (int (length data) * 8))) (\<lambda>view.
         bindE (processBlocks view totalLength 0 H0) (\<lambda>hs.
           case hs of (h0, h1, h2, h3, h4, h5, h6, h7) \<Rightarrow>
             Inr (concat (map bytesOfUint32 [h0, h1, h2, h3, h4, h5, h6, h7]))))))"
    unfolding sha256Bytes_def Let_def p_def [symmetric] tl ..
  show ?thesis
  proof (cases "ToIndex totalLength")
    case (Inl e)
    with ToIndex_error [OF Inl] unfold show ?thesis by simp
  next
    case n: (Inr n)
    have n_eq: "n = nat z"
      using ToIndex_fraction [OF z0] n unfolding totalLength_def by blast
    show ?thesis
    proof (cases "Uint8Array_set (replicate n 0) data 0")
      case (Inl e)
      with Uint8Array_set_error [OF Inl] unfold n show ?thesis by simp
    next
      case p0: (Inr padded0)
      have len0: "length padded0 = n"
        using Uint8Array_set_length [OF p0] by simp
      show ?thesis
      proof (cases "setUint32 (padded0[length data := 0x80]) (totalLength - 4) (word_of_int (int (length data) * 8))")
        case (Inl e)
        with setUint32_error [OF Inl] unfold n p0 show ?thesis by simp
      next
        case v: (Inr view)
        have lenv: "length view = nat z"
          using setUint32_length [OF v] len0 n_eq by simp
        have "(of_nat (length view) :: rat) = of_int z"
          using lenv z0 by simp
        then have "of_nat (length view) < totalLength"
          by (simp add: totalLength_def)
        then have "processBlocks view totalLength 0 H0 = Inl RangeError"
          by (rule processBlocks_overrun) simp
        with unfold n p0 v show ?thesis by simp
      qed
    qed
  qed
qed


lemma hmacSha256_throws: "hmacSha256 message key = Inl RangeError"
  by (simp add: hmacSha256_def Let_def sha256Bytes_throws Uint8Array_set_def bindE_def
        del: upt_rec_numeral split: sum.splits)

lemma verifySignature_hmac_prefixed:
  "sig \<noteq> [] \<Longrightarrow> startsWith sig (ascii ''sha256='') \<Longrightarrow> verifySignature_hmac body (Some sig) secret = Inl RangeError"
  by (simp add: verifySignature_hmac_def computeHmacSha256_def hmacSha256_throws)

lemma verifySignature_prefixed:
  "sig \<noteq> [] \<Longrightarrow> startsWith sig (ascii ''sha256='') \<Longrightarrow> verifySignature body (Some sig) secret = True"
  by (simp add: verifySignature_def)

lemma ucast_code_unit_eq:
  "(ucast (x :: 16 word) :: 32 word) = ucast (y :: 16 word) \<longleftrightarrow> x = y"
proof
  assume "(ucast x :: 32 word) = ucast y"
  then have "unat (ucast x :: 32 word) = unat (ucast y :: 32 word)" by simp
  moreover have "unat x < 2 ^ 32" "unat y < 2 ^ 32"
    using unsigned_less [of x, where ?'a = nat] unsigned_less [of y, where ?'a = nat] by simp_all
  ultimately have "unat x = unat y"
    by (simp add: unsigned_ucast_eq take_bit_nat_eq_self)
  then show "x = y" by (simp add: word_unat_eq_iff)
qed simp

lemma word_xor_eq_0: "(x :: 32 word) XOR y = 0 \<longleftrightarrow> x = y"
proof
  assume "x XOR y = 0"
  then have "(x XOR y) XOR y = 0 XOR y" by simp
  then show "x = y" by (simp add: xor.assoc)
qed simp

lemma word_or_eq_0: "(x :: 32 word) OR y = 0 \<longleftrightarrow> x = 0 \<and> y = 0"
  by (auto simp: bit_eq_iff bit_or_iff)

lemma tse_fold_count:
  "snd (foldl (\<lambda>(result, n) i. (result OR (ucast (a ! i) XOR ucast (b ! i)) :: 32 word, Suc n)) (r, k) is)
     = k + length is"
  by (induction "is" arbitrary: r k) auto

lemma tse_fold_zero:
  "fst (foldl (\<lambda>(result, n) i. (result OR (ucast ((a :: jsstring) ! i) XOR ucast ((b :: jsstring) ! i)) :: 32 word, Suc n)) (r, k) is) = 0
     \<longleftrightarrow> r = 0 \<and> (\<forall>i \<in> set is. a ! i = b ! i)"
proof (induction "is" arbitrary: r k)
  case Nil
  then show ?case by simp
next
  case (Cons i "is")
  show ?case
    by (simp add: Cons.IH word_or_eq_0 word_xor_eq_0 ucast_code_unit_eq)
qed

lemma timingSafeEqual_counted_count:
  "length a = length b \<Longrightarrow> snd (timingSafeEqual_counted a b) = length a"
  using tse_fold_count [of a b 0 0 "[0..<length a]"]
  by (simp add: timingSafeEqual_counted_def case_prod_beta)

lemma timingSafeEqual_eq: "timingSafeEqual a b \<longleftrightarrow> a = b"
proof (cases "length a = length b")
  case True
  then have "timingSafeEqual a b \<longleftrightarrow> (\<forall>i < length a. a ! i = b ! i)"
    using tse_fold_zero [of a b 0 0 "[0..<length a]"]
    by (simp add: timingSafeEqual_def timingSafeEqual_counted_def case_prod_beta Ball_def)
  with True show ?thesis by (simp add: list_eq_iff_nth_eq)
next
  case False
  then show ?thesis by (auto simp: timingSafeEqual_def timingSafeEqual_counted_def)
qed

section \<open>Properties of the URL code\<close>

lemma unreserved_small: "uriUnreserved n \<Longrightarrow> n < 0x80"
  by (auto simp: uriUnreserved_def)

lemma unreserved_code_unit:
  "uriUnreserved (unat (c :: 16 word)) \<Longrightarrow> c \<noteq> 0x2F \<and> c \<noteq> 0x3F \<and> c \<noteq> 0x26 \<and> c \<noteq> 0x25 \<and> c \<noteq> 0x23"
  by (auto simp: uriUnreserved_def)

lemma of_nat_unreserved:
  "uriUnreserved n \<Longrightarrow> (of_nat n :: 16 word) \<noteq> 0x2F \<and> (of_nat n :: 16 word) \<noteq> 0x3F \<and> (of_nat n :: 16 word) \<noteq> 0x26"
proof -
  assume u: "uriUnreserved n"
  then have "n < 0x80" by (rule unreserved_small)
  then have "unat (of_nat n :: 16 word) = n"
    by (simp add: unat_of_nat take_bit_nat_eq_self)
  with u unreserved_code_unit [of "of_nat n :: 16 word"] show ?thesis by simp
qed

lemma hexUpper_plain:
  "n < 16 \<Longrightarrow> hexUpper n \<noteq> 0x2F \<and> hexUpper n \<noteq> 0x3F \<and> hexUpper n \<noteq> 0x26"
proof -
  assume "n < 16"
  then have "n \<in> set [0..<16]" by simp
  then show ?thesis
    by (simp add: upt_rec numeral_nat hexUpper_def) (elim disjE; simp)
qed


lemma utf8_octet: "b \<in> set (utf8 n) \<Longrightarrow> unat b div 16 < 16 \<and> unat b mod 16 < 16"
proof -
  have "unat b < 256" using unsigned_less [of b, where ?'a = nat] by simp
  then show ?thesis by simp
qed

lemma percentEncode_plain:
  "c \<in> set (percentEncode b) \<Longrightarrow> c \<noteq> 0x2F \<and> c \<noteq> 0x3F \<and> c \<noteq> 0x26"
proof -
  assume c: "c \<in> set (percentEncode b)"
  have "unat b < 256" using unsigned_less [of b, where ?'a = nat] by simp
  then have "unat b div 16 < 16" "unat b mod 16 < 16" by simp_all
  with c hexUpper_plain [of "unat b div 16"] hexUpper_plain [of "unat b mod 16"]
  show ?thesis by (auto simp: percentEncode_def)
qed

lemma encodePoints_plain:
  "encodePoints cps = Inr r \<Longrightarrow> c \<in> set r \<Longrightarrow> c \<noteq> 0x2F \<and> c \<noteq> 0x3F \<and> c \<noteq> 0x26"
proof (induction cps arbitrary: r rule: encodePoints.induct)
  case 1
  then show ?case by simp
next
  case (2 cps)
  then show ?case by simp
next
  case (3 n cps)
  from "3.prems"(1) obtain rest where
    rest: "encodePoints cps = Inr rest"
    and r: "r = (if uriUnreserved n then [of_nat n] else concat (map percentEncode (utf8 n))) @ rest"
    by (auto simp: bindE_def split: sum.splits)
  from "3.prems"(2) r consider
      "c \<in> set rest"
    | "uriUnreserved n" "c = of_nat n"
    | b where "b \<in> set (utf8 n)" "c \<in> set (percentEncode b)"
    by (auto split: if_splits)
  then show ?case
  proof cases
    case 1
    with "3.IH" [OF rest] show ?thesis .
  next
    case 2
    with of_nat_unreserved [of n] show ?thesis by simp
  next
    case 3
    with percentEncode_plain show ?thesis by blast
  qed
qed

lemma ascii_codePoints:
  "list_all (\<lambda>c. unat c < 0x80) s \<Longrightarrow> codePoints s = map (\<lambda>c. Some (unat c)) s"
proof (induction s rule: codePoints.induct)
  case 1
  then show ?case by simp
next
  case (2 c)
  then show ?case by (simp add: isHighSurrogate_def isLowSurrogate_def word_le_nat_alt)
next
  case (3 c d s)
  then show ?case by (simp add: isHighSurrogate_def isLowSurrogate_def word_le_nat_alt)
qed

lemma encodePoints_unreserved:
  "list_all (\<lambda>c. uriUnreserved (unat c)) s \<Longrightarrow> encodePoints (map (\<lambda>c. Some (unat c)) s) = Inr s"
  by (induction s) simp_all

lemma urlSafe_ascii: "urlSafe s \<Longrightarrow> list_all (\<lambda>c. unat c < 0x80) s"
  unfolding urlSafe_def by (induction s) (auto dest: unreserved_small)

lemma encodeURIComponent_urlSafe: "urlSafe s \<Longrightarrow> encodeURIComponent s = Inr s"
  by (simp add: encodeURIComponent_def ascii_codePoints [OF urlSafe_ascii] encodePoints_unreserved urlSafe_def)

lemma encodeURIComponent_group_path:
  "urlSafe roomId \<Longrightarrow> encodeURIComponent (ascii ''group/'' @ roomId) = Inr (ascii ''group%2F'' @ roomId)"
proof -
  assume safe: "urlSafe roomId"
  have "list_all (\<lambda>c. unat c < 0x80) (ascii ''group/'' @ roomId)"
    using urlSafe_ascii [OF safe] by (simp add: ascii_def)
  then have "codePoints (ascii ''group/'' @ roomId) = map (\<lambda>c. Some (unat c)) (ascii ''group/'' @ roomId)"
    by (rule ascii_codePoints)
  then show ?thesis
    using safe
    by (simp add: encodeURIComponent_def encodePoints_unreserved urlSafe_def ascii_def
          uriUnreserved_def utf8_def percentEncode_def hexUpper_def)
qed

lemma decodeFrom_no_escape: "0x25 \<notin> set s \<Longrightarrow> decodeFrom 0 [] s = Inr s"
  by (induction s) auto

lemma decodeURIComponent_urlSafe: "urlSafe s \<Longrightarrow> decodeURIComponent s = Inr s"
proof -
  assume "urlSafe s"
  then have "0x25 \<notin> set s"
    unfolding urlSafe_def list_all_iff using unreserved_code_unit by blast
  then show ?thesis by (simp add: decodeURIComponent_def decodeFrom_no_escape)
qed


lemma matchGroupPath_no_slash: "c \<noteq> 0x2F \<Longrightarrow> matchGroupPath (c # s) = None"
  by (simp add: matchGroupPath_def startsWith_def ascii_def)

lemma searchRegex_group_skip:
  "\<forall>c \<in> set xs. c \<noteq> 0x2F \<Longrightarrow> searchRegex matchGroupPath (xs @ ys) = searchRegex matchGroupPath ys"
  by (induction xs) (simp_all add: matchGroupPath_no_slash)

lemma searchRegex_group_none:
  "\<forall>c \<in> set xs. c \<noteq> 0x2F \<Longrightarrow> searchRegex matchGroupPath xs = None"
  using searchRegex_group_skip [of xs "[]"]
  by (simp add: matchGroupPath_def startsWith_def ascii_def)

lemma matchPathParam_other: "c \<noteq> 0x3F \<Longrightarrow> c \<noteq> 0x26 \<Longrightarrow> matchPathParam (c # s) = None"
  by (simp add: matchPathParam_def)

lemma searchRegex_param_skip:
  "\<forall>c \<in> set xs. c \<noteq> 0x3F \<and> c \<noteq> 0x26 \<Longrightarrow> searchRegex matchPathParam (xs @ ys) = searchRegex matchPathParam ys"
  by (induction xs) (simp_all add: matchPathParam_other)

lemma takeWhile_all: "\<forall>c \<in> set s. P c \<Longrightarrow> takeWhile P s = s"
  by (induction s) simp_all

lemma link_no_group_path:
  assumes "\<forall>c \<in> set rest. c \<noteq> 0x2F"
  shows "searchRegex matchGroupPath (ascii ''https://go.rocket.chat/room?host='' @ rest) = None"
proof -
  have "searchRegex matchGroupPath (ascii ''https://go.rocket.chat/room?host='' @ rest)
          = searchRegex matchGroupPath rest"
    by (simp add: ascii_def matchGroupPath_def startsWith_def)
  with searchRegex_group_none [OF assms] show ?thesis by simp
qed

lemma link_path_param:
  assumes host: "\<forall>c \<in> set encodedHost. c \<noteq> 0x3F \<and> c \<noteq> 0x26"
    and room: "\<forall>c \<in> set roomId. c \<noteq> 0x26" and nonempty: "roomId \<noteq> []"
  shows "searchRegex matchPathParam
           (ascii ''https://go.rocket.chat/room?host='' @ encodedHost @ ascii ''&path='' @ ascii ''group%2F'' @ roomId)
         = Some roomId"
proof -
  let ?tail = "ascii ''&path='' @ ascii ''group%2F'' @ roomId"
  have "searchRegex matchPathParam (ascii ''https://go.rocket.chat/room?host='' @ encodedHost @ ?tail)
          = searchRegex matchPathParam (encodedHost @ ?tail)"
    by (simp add: ascii_def matchPathParam_def startsWithIgnoreCase_def asciiUpper_def)
  also have "\<dots> = searchRegex matchPathParam ?tail"
    by (rule searchRegex_param_skip [OF host])
  also have "\<dots> = Some roomId"
    using nonempty
    by (simp add: takeWhile_all [OF room] ascii_def matchPathParam_def startsWithIgnoreCase_def startsWith_def asciiUpper_def captureWhile_def)
  finally show ?thesis .
qed

lemma buildDeepLink_shape:
  "buildDeepLink pf siteUrl path = Inr link \<Longrightarrow>
     \<exists>host encodedHost encodedPath. encodeURIComponent host = Inr encodedHost
        \<and> encodeURIComponent path = Inr encodedPath
        \<and> link = ascii ''https://go.rocket.chat/room?host='' @ encodedHost @ ascii ''&path='' @ encodedPath"
  by (auto simp: buildDeepLink_def Let_def bindE_def split: sum.splits)

lemma deep_link_round_trip:
  assumes safe: "urlSafe roomId" and nonempty: "roomId \<noteq> []"
    and link: "buildDeepLink pf siteUrl (ascii ''group/'' @ roomId) = Inr link"
  shows "extractRoomIdFromUrl link = Inr (Some roomId)"
proof -
  from buildDeepLink_shape [OF link] obtain host encodedHost encodedPath where
    eh: "encodeURIComponent host = Inr encodedHost"
    and ep: "encodeURIComponent (ascii ''group/'' @ roomId) = Inr encodedPath"
    and l: "link = ascii ''https://go.rocket.chat/room?host='' @ encodedHost @ ascii ''&path='' @ encodedPath"
    by blast
  from ep encodeURIComponent_group_path [OF safe] have epv: "encodedPath = ascii ''group%2F'' @ roomId"
    by simp
  have room_plain: "\<forall>c \<in> set roomId. c \<noteq> 0x2F \<and> c \<noteq> 0x3F \<and> c \<noteq> 0x26"
    using safe unreserved_code_unit unfolding urlSafe_def list_all_iff by blast
  have host_plain: "\<forall>c \<in> set encodedHost. c \<noteq> 0x2F \<and> c \<noteq> 0x3F \<and> c \<noteq> 0x26"
    using eh encodePoints_plain unfolding encodeURIComponent_def by blast
  have "\<forall>c \<in> set (encodedHost @ ascii ''&path='' @ ascii ''group%2F'' @ roomId). c \<noteq> 0x2F"
    using room_plain host_plain by (auto simp: ascii_def)
  then have direct: "searchRegex matchGroupPath link = None"
    unfolding l epv by (rule link_no_group_path)
  have param: "searchRegex matchPathParam link = Some roomId"
    unfolding l epv using host_plain room_plain nonempty by (intro link_path_param) auto
  show ?thesis
    by (simp add: extractRoomIdFromUrl_def direct param decodeURIComponent_urlSafe [OF safe])
qed

lemma buildDeepLink_host:
  assumes "urlSafe host" and "newURL pf host = Inl e" and "urlSafe roomId"
  shows "buildDeepLink pf host (ascii ''group/'' @ roomId)
           = Inr (ascii ''https://go.rocket.chat/room?host='' @ host @ ascii ''&path='' @ ascii ''group%2F'' @ roomId)"
proof -
  have plain: "\<forall>c \<in> set host. c \<noteq> 0x2F \<and> c \<noteq> 0x3F \<and> c \<noteq> 0x23"
    using assms(1) unreserved_code_unit unfolding urlSafe_def list_all_iff by blast
  have no_scheme: "\<not> startsWith host p" if "0x2F \<in> set p" for p
  proof
    assume "startsWith host p"
    then have "set p \<subseteq> set host"
      unfolding startsWith_def using set_take_subset [of "length p" host] by simp
    with that plain show False by blast
  qed
  have starts: "\<not> startsWith host (ascii ''https://'')" "\<not> startsWith host (ascii ''http://'')"
    by (rule no_scheme, simp add: ascii_def)+
  have "(case matchHostFallback host of Some h \<Rightarrow> h | None \<Rightarrow> host) = host"
    using takeWhile_all [OF plain] starts
    by (simp add: matchHostFallback_def Let_def captureWhile_def)
  then show ?thesis
    using assms
    by (simp add: buildDeepLink_def Let_def encodeURIComponent_urlSafe encodeURIComponent_group_path)
qed

section \<open>Properties of the handlers\<close>

lemma returnIO_apply: "returnIO x w = (Inr x, w)"
  by (simp add: returnIO_def)

lemma throwIO_apply: "throwIO e w = (Inl e, w)"
  by (simp add: throwIO_def)

lemma liftE_apply: "liftE r w = (r, w)"
  by (simp add: liftE_def)

lemma bindIO_apply:
  "bindIO m f w = (case m w of (Inl e, w') \<Rightarrow> (Inl e, w') | (Inr a, w') \<Rightarrow> f a w')"
  by (simp add: bindIO_def)

lemma bindIO_Inr:
  "bindIO m f w = (Inr r, w') \<longleftrightarrow> (\<exists>a w1. m w = (Inr a, w1) \<and> f a w1 = (Inr r, w'))"
  by (auto simp: bindIO_def split: prod.splits sum.splits)

lemma bindIO_step_Inr: "m w = (Inr a, w1) \<Longrightarrow> bindIO m f w = f a w1"
  by (simp add: bindIO_def)

lemma bindIO_step_Inl: "m w = (Inl e, w1) \<Longrightarrow> bindIO m f w = (Inl e, w1)"
  by (simp add: bindIO_def)

lemma onlyCalls_returnIO: "onlyCalls P (returnIO x)"
  by (simp add: onlyCalls_def returnIO_def)

lemma onlyCalls_throwIO: "onlyCalls P (throwIO e)"
  by (simp add: onlyCalls_def throwIO_def)

lemma onlyCalls_liftE: "onlyCalls P (liftE r)"
  by (simp add: onlyCalls_def liftE_def)

lemma onlyCalls_now: "onlyCalls P (now ch)"
  by (simp add: onlyCalls_def now_def)

lemma onlyCalls_perform: "P c \<Longrightarrow> onlyCalls P (perform c reply)"
  by (simp add: onlyCalls_def perform_def)

lemma onlyCalls_readByAssociation: "P (ReadByAssociation key) \<Longrightarrow> onlyCalls P (readByAssociation ch key)"
  by (simp add: onlyCalls_def readByAssociation_def)

lemma onlyCalls_bindIO:
  assumes "onlyCalls P m" and "\<And>a. onlyCalls P (f a)"
  shows "onlyCalls P (bindIO m f)"
  unfolding onlyCalls_def
proof
  fix w
  obtain r w1 where mw: "m w = (r, w1)" by (cases "m w")
  from assms(1) mw obtain cs1 where
    s1: "world_store w1 = world_store w" and c1: "world_calls w1 = world_calls w @ cs1" and p1: "list_all P cs1"
    unfolding onlyCalls_def by (metis snd_conv)
  show "world_store (snd (bindIO m f w)) = world_store w
        \<and> (\<exists>cs. world_calls (snd (bindIO m f w)) = world_calls w @ cs \<and> list_all P cs)"
  proof (cases r)
    case (Inl e)
    with mw s1 c1 p1 show ?thesis by (auto simp: bindIO_def)
  next
    case (Inr a)
    from assms(2) [of a] obtain cs2 where
      s2: "world_store (snd (f a w1)) = world_store w1"
      and c2: "world_calls (snd (f a w1)) = world_calls w1 @ cs2" and p2: "list_all P cs2"
      unfolding onlyCalls_def by blast
    have "bindIO m f w = f a w1" using mw Inr by (simp add: bindIO_def)
    with s1 s2 c1 c2 p1 p2 show ?thesis by auto
  qed
qed

lemma onlyCalls_catchIO:
  assumes "onlyCalls P m" and "\<And>e. onlyCalls P (h e)"
  shows "onlyCalls P (catchIO m h)"
  unfolding onlyCalls_def
proof
  fix w
  obtain r w1 where mw: "m w = (r, w1)" by (cases "m w")
  from assms(1) mw obtain cs1 where
    s1: "world_store w1 = world_store w" and c1: "world_calls w1 = world_calls w @ cs1" and p1: "list_all P cs1"
    unfolding onlyCalls_def by (metis snd_conv)
  show "world_store (snd (catchIO m h w)) = world_store w
        \<and> (\<exists>cs. world_calls (snd (catchIO m h w)) = world_calls w @ cs \<and> list_all P cs)"
  proof (cases r)
    case (Inr a)
    with mw s1 c1 p1 show ?thesis by (auto simp: catchIO_def)
  next
    case (Inl e)
    from assms(2) [of e] obtain cs2 where
      s2: "world_store (snd (h e w1)) = world_store w1"
      and c2: "world_calls (snd (h e w1)) = world_calls w1 @ cs2" and p2: "list_all P cs2"
      unfolding onlyCalls_def by blast
    have "catchIO m h w = h e w1" using mw Inl by (simp add: catchIO_def)
    with s1 s2 c1 c2 p1 p2 show ?thesis by auto
  qed
qed

lemma onlyCalls_mono: "onlyCalls P m \<Longrightarrow> (\<And>c. P c \<Longrightarrow> Q c) \<Longrightarrow> onlyCalls Q m"
  unfolding onlyCalls_def by (metis (mono_tags, lifting) list.pred_mono_strong)

lemma onlyCalls_case_option:
  "onlyCalls P n \<Longrightarrow> (\<And>x. onlyCalls P (s x)) \<Longrightarrow> onlyCalls P (case v of None \<Rightarrow> n | Some x \<Rightarrow> s x)"
  by (cases v) simp_all

lemma onlyCalls_case_list:
  "onlyCalls P n \<Longrightarrow> (\<And>x xs. onlyCalls P (s x xs)) \<Longrightarrow> onlyCalls P (case v of [] \<Rightarrow> n | x # xs \<Rightarrow> s x xs)"
  by (cases v) simp_all

lemma onlyCalls_if:
  "(b \<Longrightarrow> onlyCalls P m) \<Longrightarrow> (\<not> b \<Longrightarrow> onlyCalls P n) \<Longrightarrow> onlyCalls P (if b then m else n)"
  by simp

lemmas onlyCalls_intros =
  onlyCalls_bindIO onlyCalls_catchIO onlyCalls_case_option onlyCalls_case_list onlyCalls_if
  onlyCalls_perform onlyCalls_readByAssociation onlyCalls_returnIO onlyCalls_throwIO
  onlyCalls_liftE onlyCalls_now

lemma onlyCalls_store: "onlyCalls P m \<Longrightarrow> m w = (r, w') \<Longrightarrow> world_store w' = world_store w"
  unfolding onlyCalls_def by (metis snd_conv)

lemma onlyCalls_calls:
  "onlyCalls P m \<Longrightarrow> m w = (r, w') \<Longrightarrow> \<exists>cs. world_calls w' = world_calls w @ cs \<and> list_all P cs"
  unfolding onlyCalls_def by (metis snd_conv)

lemma onlyCalls_creations:
  "onlyCalls (\<lambda>c. \<not> isCreateDiscussion c) m \<Longrightarrow> m w = (r, w') \<Longrightarrow> creations w' = creations w"
proof -
  assume "onlyCalls (\<lambda>c. \<not> isCreateDiscussion c) m" and "m w = (r, w')"
  then obtain cs where "world_calls w' = world_calls w @ cs" and "list_all (\<lambda>c. \<not> isCreateDiscussion c) cs"
    using onlyCalls_calls by blast
  then show ?thesis by (simp add: creations_def list_all_iff)
qed

text \<open>The pieces of the manager and of the store.\<close>

lemma onlyCalls_getDiscussion:
  "P (ReadByAssociation (associationKey rfdId)) \<Longrightarrow> onlyCalls P (getDiscussion ch rfdId)"
  unfolding getDiscussion_def by (intro onlyCalls_intros)

lemma onlyCalls_setRoomDescription:
  "P (SetDescription (room_id room) description user) \<Longrightarrow> onlyCalls P (setRoomDescription ch room description user)"
  unfolding setRoomDescription_def finishUpdate_def by (intro onlyCalls_intros)

lemma onlyCalls_addAuthorsLoop:
  "(\<And>c. \<not> isCreateDiscussion c \<Longrightarrow> P c) \<Longrightarrow> onlyCalls P (addAuthorsLoop pf ch discussion appUser members authors)"
proof (induction authors)
  case Nil
  show ?case unfolding addAuthorsLoop.simps by (rule onlyCalls_returnIO)
next
  case (Cons a authors)
  show ?case
    unfolding addAuthorsLoop.simps Let_def getByUsername_def finishUpdate_def
    by (intro onlyCalls_intros Cons.IH Cons.prems) simp_all
qed

lemma onlyCalls_addAuthorsToDiscussion:
  "(\<And>c. \<not> isCreateDiscussion c \<Longrightarrow> P c) \<Longrightarrow> onlyCalls P (addAuthorsToDiscussion pf ch discussion parentRoom authors)"
  unfolding addAuthorsToDiscussion_def getAppUser_def getMembers_def
  by (intro onlyCalls_intros onlyCalls_addAuthorsLoop) simp_all


lemma onlyCalls_createDiscussion:
  "onlyCalls (\<lambda>c. True) (createDiscussion pf ch parentChannel rfd link siteUrl prefix)"
  unfolding createDiscussion_def Let_def getByName_def getAppUser_def finishDiscussion_def getById_def
    postMessage_def finishUpdate_def
  by (intro onlyCalls_intros onlyCalls_setRoomDescription onlyCalls_addAuthorsToDiscussion) simp_all

lemma perform_creations:
  "perform c reply w = (r, w') \<Longrightarrow>
     creations w' = creations w + (if isCreateDiscussion c then 1 else 0)
     \<and> world_store w' = world_store w"
  by (auto simp: perform_def creations_def)

lemma buildDeepLink_nonempty: "buildDeepLink pf siteUrl path = Inr link \<Longrightarrow> link \<noteq> []"
  using buildDeepLink_shape [of pf siteUrl path link] by (auto simp: ascii_def)

lemma createDiscussion_success:
  assumes run: "createDiscussion pf ch parentChannel rfd link siteUrl prefix w = (Inr r, w')"
  shows "creations w' = Suc (creations w) \<and> world_store w' = world_store w
       \<and> (\<exists>d. r = Some d \<and> ref_url d \<noteq> [])"
proof -
  from run obtain parentRoom appUser discussionId discussion discussionUrl w1 w2 w3 w4 w5 w6 d1 d2 d3 where
    s1: "getByName ch parentChannel w = (Inr (Some parentRoom), w1)"
    and s2: "getAppUser ch w1 = (Inr (Some appUser), w2)"
    and s3: "finishDiscussion ch parentRoom
               (prefix @ ascii ''-'' @ rfd_id rfd @ ascii '': '' @ rfd_title rfd)
               (slugify pf (toLowerCase pf prefix @ ascii ''-'' @ rfd_id rfd @ ascii ''-'' @ rfd_title rfd))
               appUser w2 = (Inr discussionId, w3)"
    and s4: "getById ch discussionId w3 = (Inr (Some discussion), w4)"
    and s5: "setRoomDescription ch discussion
               (buildDescription rfd link @ [0x0A, 0x0A, 0xD83D, 0xDCDD] @ ascii '' View ADR: '' @ link)
               appUser w4 = (Inr d1, w5)"
    and s6: "addAuthorsToDiscussion pf ch discussion parentRoom (rfd_authors rfd) w5 = (Inr d2, w6)"
    and s7: "postMessage ch discussion appUser
               ([0xD83C, 0xDF89] @ ascii '' **New '' @ prefix @ ascii '' Created**'' @ [0x0A, 0x0A]
                @ ascii ''**'' @ rfd_title rfd @ ascii ''**'' @ [0x0A, 0x0A]
                @ STATE_DESCRIPTIONS (rfd_state rfd) @ [0x0A, 0x0A]
                @ [0xD83D, 0xDD17] @ ascii '' [Read the full '' @ prefix @ ascii ''](''
                @ link @ ascii '')'' @ [0x0A, 0x0A]
                @ ascii ''_Authors: '' @ joinWith (ascii '', '') (rfd_authors rfd) @ ascii ''_'') w6 = (Inr d3, w')"
    and s8: "buildDeepLink pf siteUrl (ascii ''group/'' @ discussionId) = Inr discussionUrl"
    and res: "r = Some \<lparr>ref_id = discussionId, ref_url = discussionUrl\<rparr>"
    unfolding createDiscussion_def Let_def
    by (auto simp: bindIO_Inr throwIO_def returnIO_def liftE_def split: option.splits if_splits)
  have c1: "creations w1 = creations w" "world_store w1 = world_store w"
    using perform_creations [OF s1 [unfolded getByName_def]] by simp_all
  have c2: "creations w2 = creations w1" "world_store w2 = world_store w1"
    using perform_creations [OF s2 [unfolded getAppUser_def]] by simp_all
  have c3: "creations w3 = Suc (creations w2)" "world_store w3 = world_store w2"
    using perform_creations [OF s3 [unfolded finishDiscussion_def]] by simp_all
  have c4: "creations w4 = creations w3" "world_store w4 = world_store w3"
    using perform_creations [OF s4 [unfolded getById_def]] by simp_all
  have quiet: "\<And>c. \<not> isCreateDiscussion c \<Longrightarrow> \<not> isCreateDiscussion c" by simp
  have c5: "creations w5 = creations w4" "world_store w5 = world_store w4"
    using onlyCalls_creations [OF onlyCalls_setRoomDescription s5]
      onlyCalls_store [OF onlyCalls_setRoomDescription s5, of "\<lambda>c. True"] by simp_all
  have c6: "creations w6 = creations w5" "world_store w6 = world_store w5"
    using onlyCalls_creations [OF onlyCalls_addAuthorsToDiscussion s6]
      onlyCalls_store [OF onlyCalls_addAuthorsToDiscussion s6, of "\<lambda>c. True"] by simp_all
  have c7: "creations w' = creations w6" "world_store w' = world_store w6"
    using perform_creations [OF s7 [unfolded postMessage_def finishUpdate_def]] by simp_all
  from c1 c2 c3 c4 c5 c6 c7 res buildDeepLink_nonempty [OF s8] show ?thesis by simp
qed

lemma getDiscussion_result:
  assumes "getDiscussion ch rfdId w = (r, w')"
  shows "world_store w' = world_store w
       \<and> world_calls w' = world_calls w @ [ReadByAssociation (associationKey rfdId)]
       \<and> r = (case reply_failure ch (world_calls w) (ReadByAssociation (associationKey rfdId)) of
                Some e \<Rightarrow> Inl e
              | None \<Rightarrow> Inr (world_store w (associationKey rfdId)))"
  using assms
  by (auto simp: getDiscussion_def readByAssociation_def bindIO_def returnIO_def
        split: option.splits sum.splits list.splits)

lemma storeDiscussion_result:
  assumes "storeDiscussion ch rfdId roomId roomUrl w = (r, w')"
  shows "(\<exists>e. r = Inl e \<and> world_store w' = world_store w)
       \<or> (r = Inr () \<and> world_store w' = (world_store w)(associationKey rfdId \<mapsto>
             \<lparr>stored_rfdId = rfdId, stored_roomId = roomId, stored_roomUrl = roomUrl,
              stored_createdAt = reply_now ch (world_calls w)\<rparr>))"
  using assms
  by (auto simp: storeDiscussion_def updateByAssociation_def now_def bindIO_def split: option.splits)

lemma storeDiscussion_creations:
  "storeDiscussion ch rfdId roomId roomUrl w = (r, w') \<Longrightarrow> creations w' = creations w"
  by (auto simp: storeDiscussion_def updateByAssociation_def now_def bindIO_def creations_def
        split: option.splits)

lemma handleCreated_first:
  assumes no_ref: "\<not> truthy (rfd_discussion rfd)"
    and fresh: "world_store w (associationKey (rfd_id rfd)) = None"
    and run: "handleCreated pf ch rfd link parentChannel siteUrl prefix w = (Inr response, w1)"
    and ok: "api_status response = OK"
  shows "\<exists>d t. response = successResponse None (Some d) \<and> ref_url d \<noteq> []
           \<and> creations w1 = Suc (creations w)
           \<and> world_store w1 = (world_store w)(associationKey (rfd_id rfd) \<mapsto>
                \<lparr>stored_rfdId = rfd_id rfd, stored_roomId = ref_id d, stored_roomUrl = ref_url d,
                 stored_createdAt = t\<rparr>)"
proof -
  from run no_ref obtain existing wa where
    g: "getDiscussion ch (rfd_id rfd) w = (Inr existing, wa)"
    and rest: "(case existing of
          Some existing \<Rightarrow>
            returnIO (successResponse (Some (ascii ''Discussion already exists (from persistence)''))
              (Some \<lparr>ref_id = stored_roomId existing, ref_url = stored_roomUrl existing\<rparr>))
        | None \<Rightarrow>
            bindIO (createDiscussion pf ch parentChannel rfd link siteUrl prefix) (\<lambda>discussion'.
            case discussion' of
              None \<Rightarrow> returnIO (errorResponse INTERNAL_SERVER_ERROR (Error (ascii ''Failed to create discussion'')))
            | Some discussion \<Rightarrow>
                bindIO (storeDiscussion ch (rfd_id rfd) (ref_id discussion) (ref_url discussion)) (\<lambda>stored.
                  returnIO (successResponse None
                    (Some \<lparr>ref_id = ref_id discussion, ref_url = ref_url discussion\<rparr>))))) wa = (Inr response, w1)"
    unfolding handleCreated_def by (auto simp: bindIO_Inr)
  from getDiscussion_result [OF g] fresh have
    ga: "world_store wa = world_store w" "creations wa = creations w" "existing = None"
    by (auto simp: creations_def split: option.splits)
  from rest ga(3) obtain discussion' wb where
    c: "createDiscussion pf ch parentChannel rfd link siteUrl prefix wa = (Inr discussion', wb)"
    and rest2: "(case discussion' of
              None \<Rightarrow> returnIO (errorResponse INTERNAL_SERVER_ERROR (Error (ascii ''Failed to create discussion'')))
            | Some discussion \<Rightarrow>
                bindIO (storeDiscussion ch (rfd_id rfd) (ref_id discussion) (ref_url discussion)) (\<lambda>stored.
                  returnIO (successResponse None
                    (Some \<lparr>ref_id = ref_id discussion, ref_url = ref_url discussion\<rparr>)))) wb = (Inr response, w1)"
    by (auto simp: bindIO_Inr)
  from createDiscussion_success [OF c] obtain d where
    cb: "creations wb = Suc (creations wa)" "world_store wb = world_store wa"
    and d: "discussion' = Some d" "ref_url d \<noteq> []"
    by blast
  from rest2 d(1) obtain u where
    st: "storeDiscussion ch (rfd_id rfd) (ref_id d) (ref_url d) wb = (Inr u, w1)"
    and resp: "response = successResponse None (Some \<lparr>ref_id = ref_id d, ref_url = ref_url d\<rparr>)"
    by (auto simp: bindIO_Inr returnIO_def)
  from storeDiscussion_result [OF st] have
    "world_store w1 = (world_store wb)(associationKey (rfd_id rfd) \<mapsto>
             \<lparr>stored_rfdId = rfd_id rfd, stored_roomId = ref_id d, stored_roomUrl = ref_url d,
              stored_createdAt = reply_now ch (world_calls wb)\<rparr>)"
    by auto
  moreover have eta: "\<lparr>ref_id = ref_id d, ref_url = ref_url d\<rparr> = d" by simp
  ultimately have "response = successResponse None (Some d) \<and> ref_url d \<noteq> []
           \<and> creations w1 = Suc (creations w)
           \<and> world_store w1 = (world_store w)(associationKey (rfd_id rfd) \<mapsto>
                \<lparr>stored_rfdId = rfd_id rfd, stored_roomId = ref_id d, stored_roomUrl = ref_url d,
                 stored_createdAt = reply_now ch (world_calls wb)\<rparr>)"
    using storeDiscussion_creations [OF st] ga cb d resp by (simp add: eta)
  then show ?thesis by blast
qed

lemma handleCreated_again:
  assumes no_ref: "\<not> truthy (rfd_discussion rfd)"
    and stored: "world_store w (associationKey (rfd_id rfd)) = Some v"
    and avail: "reply_failure ch (world_calls w) (ReadByAssociation (associationKey (rfd_id rfd))) = None"
  shows "handleCreated pf ch rfd link parentChannel siteUrl prefix w
       = (Inr (successResponse (Some (ascii ''Discussion already exists (from persistence)''))
                 (Some \<lparr>ref_id = stored_roomId v, ref_url = stored_roomUrl v\<rparr>)),
          w\<lparr>world_calls := world_calls w @ [ReadByAssociation (associationKey (rfd_id rfd))]\<rparr>)"
  using assms
  by (simp add: handleCreated_def getDiscussion_def readByAssociation_def bindIO_def returnIO_def)


lemma onlyCalls_updateState:
  "(\<And>c. \<not> isCreateDiscussion c \<Longrightarrow> P c) \<Longrightarrow> onlyCalls P (updateState ch discussion appUser rfd link changes)"
  unfolding updateState_def
  by (intro onlyCalls_intros onlyCalls_setRoomDescription) simp_all

lemma onlyCalls_updateAuthors:
  "(\<And>c. \<not> isCreateDiscussion c \<Longrightarrow> P c) \<Longrightarrow> onlyCalls P (updateAuthors pf ch discussion changes)"
  unfolding updateAuthors_def Let_def getById_def
  by (intro onlyCalls_intros onlyCalls_addAuthorsToDiscussion) simp_all

lemma onlyCalls_updateDiscussion_any:
  "(\<And>c. \<not> isCreateDiscussion c \<Longrightarrow> P c) \<Longrightarrow> onlyCalls P (updateDiscussion pf ch url rfd link changes)"
  unfolding updateDiscussion_def Let_def getById_def getAppUser_def postMessage_def finishUpdate_def
  by (intro onlyCalls_intros onlyCalls_updateState onlyCalls_updateAuthors) simp_all

lemma onlyCalls_updateDiscussion:
  "onlyCalls (\<lambda>c. True) (updateDiscussion pf ch url rfd link changes)"
  by (rule onlyCalls_updateDiscussion_any) simp

text \<open>What the handlers do to the store.\<close>

lemma create_and_store:
  assumes run: "bindIO (createDiscussion pf ch parentChannel rfd link siteUrl prefix) (\<lambda>discussion'.
            case discussion' of
              None \<Rightarrow> returnIO (errorResponse INTERNAL_SERVER_ERROR (Error (ascii ''Failed to create discussion'')))
            | Some discussion \<Rightarrow>
                bindIO (storeDiscussion ch (rfd_id rfd) (ref_id discussion) (ref_url discussion)) (\<lambda>stored.
                  returnIO (successResponse None
                    (Some \<lparr>ref_id = ref_id discussion, ref_url = ref_url discussion\<rparr>)))) w = (r, w')"
  shows "world_store w' = world_store w
       \<or> (\<exists>(d :: DiscussionRef) t. ref_url d \<noteq> [] \<and> world_store w' = (world_store w)(associationKey (rfd_id rfd) \<mapsto>
             \<lparr>stored_rfdId = rfd_id rfd, stored_roomId = ref_id d, stored_roomUrl = ref_url d,
              stored_createdAt = t\<rparr>))"
proof -
  obtain c wb where c: "createDiscussion pf ch parentChannel rfd link siteUrl prefix w = (c, wb)"
    by (cases "createDiscussion pf ch parentChannel rfd link siteUrl prefix w")
  have cb: "world_store wb = world_store w"
    using onlyCalls_store [OF onlyCalls_createDiscussion c] by simp
  show ?thesis
  proof (cases c)
    case (Inl e)
    with run c have "w' = wb" by (simp add: bindIO_step_Inl)
    with cb show ?thesis by simp
  next
    case cr: (Inr d')
    from createDiscussion_success [OF c [unfolded cr]] obtain d where
      d: "d' = Some d" "ref_url d \<noteq> []" by blast
    obtain s wc where s: "storeDiscussion ch (rfd_id rfd) (ref_id d) (ref_url d) wb = (s, wc)"
      by (cases "storeDiscussion ch (rfd_id rfd) (ref_id d) (ref_url d) wb")
    have "w' = wc"
      using run c cr d(1) s
      by (cases s) (simp_all add: bindIO_step_Inr bindIO_step_Inl returnIO_def)
    from storeDiscussion_result [OF s] show ?thesis
    proof
      assume "\<exists>e. s = Inl e \<and> world_store wc = world_store wb"
      with cb \<open>w' = wc\<close> show ?thesis by auto
    next
      assume "s = Inr () \<and> world_store wc = (world_store wb)(associationKey (rfd_id rfd) \<mapsto>
             \<lparr>stored_rfdId = rfd_id rfd, stored_roomId = ref_id d, stored_roomUrl = ref_url d,
              stored_createdAt = reply_now ch (world_calls wb)\<rparr>)"
      with cb \<open>w' = wc\<close> d(2) have "ref_url d \<noteq> [] \<and> world_store w' = (world_store w)(associationKey (rfd_id rfd) \<mapsto>
             \<lparr>stored_rfdId = rfd_id rfd, stored_roomId = ref_id d, stored_roomUrl = ref_url d,
              stored_createdAt = reply_now ch (world_calls wb)\<rparr>)"
        by simp
      then show ?thesis by blast
    qed
  qed
qed

lemma handleCreated_store:
  assumes run: "handleCreated pf ch rfd link parentChannel siteUrl prefix w = (r, w')"
  shows "world_store w' = world_store w
       \<or> (world_store w (associationKey (rfd_id rfd)) = None
          \<and> (\<exists>(d :: DiscussionRef) t. ref_url d \<noteq> [] \<and> world_store w' = (world_store w)(associationKey (rfd_id rfd) \<mapsto>
                \<lparr>stored_rfdId = rfd_id rfd, stored_roomId = ref_id d, stored_roomUrl = ref_url d,
                 stored_createdAt = t\<rparr>)))"
proof (cases "truthy (rfd_discussion rfd)")
  case True
  with run show ?thesis by (simp add: handleCreated_def returnIO_def)
next
  case False
  obtain g wa where g: "getDiscussion ch (rfd_id rfd) w = (g, wa)"
    by (cases "getDiscussion ch (rfd_id rfd) w")
  from getDiscussion_result [OF g] have ga: "world_store wa = world_store w"
    and gv: "g = Inr None \<Longrightarrow> world_store w (associationKey (rfd_id rfd)) = None"
    by (auto split: option.splits)
  from run False have run': "bindIO (getDiscussion ch (rfd_id rfd)) (\<lambda>existingDiscussion.
        case existingDiscussion of
          Some existing \<Rightarrow>
            returnIO (successResponse (Some (ascii ''Discussion already exists (from persistence)''))
              (Some \<lparr>ref_id = stored_roomId existing, ref_url = stored_roomUrl existing\<rparr>))
        | None \<Rightarrow>
            bindIO (createDiscussion pf ch parentChannel rfd link siteUrl prefix) (\<lambda>discussion'.
            case discussion' of
              None \<Rightarrow> returnIO (errorResponse INTERNAL_SERVER_ERROR (Error (ascii ''Failed to create discussion'')))
            | Some discussion \<Rightarrow>
                bindIO (storeDiscussion ch (rfd_id rfd) (ref_id discussion) (ref_url discussion)) (\<lambda>stored.
                  returnIO (successResponse None
                    (Some \<lparr>ref_id = ref_id discussion, ref_url = ref_url discussion\<rparr>))))) w = (r, w')"
    by (simp add: handleCreated_def)
  show ?thesis
  proof (cases g)
    case (Inl e)
    with run' g have "w' = wa" by (simp add: bindIO_step_Inl)
    with ga show ?thesis by simp
  next
    case (Inr existing)
    show ?thesis
    proof (cases existing)
      case (Some x)
      with run' g Inr have "w' = wa" by (simp add: bindIO_step_Inr returnIO_def)
      with ga show ?thesis by simp
    next
      case None
      with gv Inr have nokey: "world_store w (associationKey (rfd_id rfd)) = None" by simp
      from run' g Inr None have "bindIO (createDiscussion pf ch parentChannel rfd link siteUrl prefix) (\<lambda>discussion'.
            case discussion' of
              None \<Rightarrow> returnIO (errorResponse INTERNAL_SERVER_ERROR (Error (ascii ''Failed to create discussion'')))
            | Some discussion \<Rightarrow>
                bindIO (storeDiscussion ch (rfd_id rfd) (ref_id discussion) (ref_url discussion)) (\<lambda>stored.
                  returnIO (successResponse None
                    (Some \<lparr>ref_id = ref_id discussion, ref_url = ref_url discussion\<rparr>)))) wa = (r, w')"
        by (simp add: bindIO_step_Inr)
      from create_and_store [OF this] nokey ga show ?thesis by simp
    qed
  qed
qed

lemma handleUpdated_store:
  assumes run: "handleUpdated pf ch rfd link changes' parentChannel siteUrl prefix w = (r, w')"
  shows "world_store w' = world_store w
       \<or> ((world_store w (associationKey (rfd_id rfd)) = None
            \<or> (\<exists>v. world_store w (associationKey (rfd_id rfd)) = Some v \<and> stored_roomUrl v = []))
          \<and> (\<exists>(d :: DiscussionRef) t. ref_url d \<noteq> [] \<and> world_store w' = (world_store w)(associationKey (rfd_id rfd) \<mapsto>
                \<lparr>stored_rfdId = rfd_id rfd, stored_roomId = ref_id d, stored_roomUrl = ref_url d,
                 stored_createdAt = t\<rparr>)))"
proof -
  define lookup where "lookup = (if truthy (rfd_discussion rfd) then returnIO (rfd_discussion rfd)
             else bindIO (getDiscussion ch (rfd_id rfd)) (\<lambda>existingDiscussion.
                    case existingDiscussion of
                      Some existing \<Rightarrow> returnIO (Some (stored_roomUrl existing))
                    | None \<Rightarrow> returnIO (rfd_discussion rfd)))"
  obtain u wa where u: "lookup w = (u, wa)" by (cases "lookup w")
  have la: "world_store wa = world_store w"
    and lv: "\<And>url. u = Inr url \<Longrightarrow> \<not> truthy url \<Longrightarrow>
           world_store w (associationKey (rfd_id rfd)) = None
           \<or> (\<exists>v. world_store w (associationKey (rfd_id rfd)) = Some v \<and> stored_roomUrl v = [])"
  proof -
    show "world_store wa = world_store w"
      using u unfolding lookup_def
      by (auto simp: returnIO_def bindIO_def getDiscussion_def readByAssociation_def
            split: if_splits prod.splits sum.splits option.splits list.splits)
    fix url
    assume "u = Inr url" and "\<not> truthy url"
    then show "world_store w (associationKey (rfd_id rfd)) = None
           \<or> (\<exists>v. world_store w (associationKey (rfd_id rfd)) = Some v \<and> stored_roomUrl v = [])"
      using u unfolding lookup_def
      by (auto simp: returnIO_def bindIO_def getDiscussion_def readByAssociation_def truthy_def
            split: if_splits prod.splits sum.splits option.splits list.splits)
  qed
  from run have run': "bindIO lookup (\<lambda>discussionUrl.
     if truthy discussionUrl then
       (case changes' of
          None \<Rightarrow> returnIO (successResponse (Some (ascii ''No changes to process'')) None)
        | Some changes \<Rightarrow>
            bindIO (updateDiscussion pf ch (stringOf discussionUrl) (rfd\<lparr>rfd_discussion := discussionUrl\<rparr>)
                      link changes) (\<lambda>updated.
              returnIO (successResponse None None)))
     else
       bindIO (createDiscussion pf ch parentChannel rfd link siteUrl prefix) (\<lambda>discussion'.
       case discussion' of
         None \<Rightarrow> returnIO (errorResponse INTERNAL_SERVER_ERROR (Error (ascii ''Failed to create discussion'')))
       | Some discussion \<Rightarrow>
           bindIO (storeDiscussion ch (rfd_id rfd) (ref_id discussion) (ref_url discussion)) (\<lambda>stored.
             returnIO (successResponse None
               (Some \<lparr>ref_id = ref_id discussion, ref_url = ref_url discussion\<rparr>))))) w = (r, w')"
    unfolding handleUpdated_def lookup_def .
  show ?thesis
  proof (cases u)
    case (Inl e)
    with run' u have "w' = wa" by (simp add: bindIO_step_Inl)
    with la show ?thesis by simp
  next
    case (Inr url)
    show ?thesis
    proof (cases "truthy url")
      case True
      have "onlyCalls (\<lambda>c. True) (case changes' of
          None \<Rightarrow> returnIO (successResponse (Some (ascii ''No changes to process'')) None)
        | Some changes \<Rightarrow>
            bindIO (updateDiscussion pf ch (stringOf url) (rfd\<lparr>rfd_discussion := url\<rparr>)
                      link changes) (\<lambda>updated.
              returnIO (successResponse None None)))"
        by (intro onlyCalls_intros onlyCalls_updateDiscussion)
      moreover from run' u Inr True have "(case changes' of
          None \<Rightarrow> returnIO (successResponse (Some (ascii ''No changes to process'')) None)
        | Some changes \<Rightarrow>
            bindIO (updateDiscussion pf ch (stringOf url) (rfd\<lparr>rfd_discussion := url\<rparr>)
                      link changes) (\<lambda>updated.
              returnIO (successResponse None None))) wa = (r, w')"
        by (simp add: bindIO_step_Inr)
      ultimately have "world_store w' = world_store wa" by (rule onlyCalls_store)
      with la show ?thesis by simp
    next
      case False
      with run' u Inr have "bindIO (createDiscussion pf ch parentChannel rfd link siteUrl prefix) (\<lambda>discussion'.
       case discussion' of
         None \<Rightarrow> returnIO (errorResponse INTERNAL_SERVER_ERROR (Error (ascii ''Failed to create discussion'')))
       | Some discussion \<Rightarrow>
           bindIO (storeDiscussion ch (rfd_id rfd) (ref_id discussion) (ref_url discussion)) (\<lambda>stored.
             returnIO (successResponse None
               (Some \<lparr>ref_id = ref_id discussion, ref_url = ref_url discussion\<rparr>)))) wa = (r, w')"
        by (simp add: bindIO_step_Inr)
      from create_and_store [OF this] lv [OF Inr False] la show ?thesis by simp
    qed
  qed
qed

lemma post_try_unauthorized:
  assumes "setting_webhook_secret cfg \<noteq> []" and "setting_parent_channel cfg \<noteq> []"
    and "verify (request_body request) (request_signature request) (setting_webhook_secret cfg) = Inr False"
  shows "post_try verify pf ch cfg request w
           = (Inr (errorResponse UNAUTHORIZED (Error (ascii ''Invalid signature''))), w)"
  using assms by (simp add: post_try_def bindIO_def liftE_def returnIO_def)

lemma post_try_created:
  assumes "setting_webhook_secret cfg \<noteq> []" and "setting_parent_channel cfg \<noteq> []"
    and "verify (request_body request) (request_signature request) (setting_webhook_secret cfg) = Inr True"
    and "request_content request = Some payload"
    and "payload_event payload = Some (ascii ''rfd.created'')" and "payload_rfd payload = Some rfd"
  shows "post_try verify pf ch cfg request w
           = handleCreated pf ch rfd (payload_link payload) (setting_parent_channel cfg)
               (if setting_site_url cfg = []
                then (case server_Site_Url cfg of Inl e \<Rightarrow> ascii ''https://chat.example.com'' | Inr url \<Rightarrow> url)
                else setting_site_url cfg)
               (if setting_prefix cfg = [] then ascii ''RFD'' else setting_prefix cfg) w"
  using assms by (simp add: post_try_def bindIO_def liftE_def truthy_def ascii_def Let_def)

lemma post_ok_verified:
  assumes "post verify pf ch cfg request w = (response, w')" and "api_status response = OK"
  shows "setting_webhook_secret cfg \<noteq> [] \<and> setting_parent_channel cfg \<noteq> []
       \<and> verify (request_body request) (request_signature request) (setting_webhook_secret cfg) = Inr True
       \<and> post_try verify pf ch cfg request w = (Inr response, w')"
proof -
  from assms have pt: "post_try verify pf ch cfg request w = (Inr response, w')"
    by (auto simp: post_def errorResponse_def split: prod.splits sum.splits)
  have s: "setting_webhook_secret cfg \<noteq> []"
    using pt assms(2) by (auto simp: post_try_def returnIO_def errorResponse_def)
  have p: "setting_parent_channel cfg \<noteq> []"
    using pt assms(2) s by (auto simp: post_try_def returnIO_def errorResponse_def)
  have "verify (request_body request) (request_signature request) (setting_webhook_secret cfg) = Inr True"
    using pt assms(2) s p
    by (cases "verify (request_body request) (request_signature request) (setting_webhook_secret cfg)")
       (auto simp: post_try_def bindIO_def liftE_def returnIO_def errorResponse_def split: if_splits)
  with s p pt show ?thesis by simp
qed

lemma post_store:
  assumes "post verify pf ch cfg request w = (response, w')"
  shows "world_store w' = world_store w
       \<or> (\<exists>key record.
             (world_store w key = None \<or> (\<exists>v. world_store w key = Some v \<and> stored_roomUrl v = []))
             \<and> stored_roomUrl record \<noteq> [] \<and> world_store w' = (world_store w)(key \<mapsto> record))"
proof -
  obtain x where pt: "post_try verify pf ch cfg request w = (x, w')"
    using assms by (auto simp: post_def split: prod.splits sum.splits)
  let ?goal = "world_store w' = world_store w
       \<or> (\<exists>key record.
             (world_store w key = None \<or> (\<exists>v. world_store w key = Some v \<and> stored_roomUrl v = []))
             \<and> stored_roomUrl record \<noteq> [] \<and> world_store w' = (world_store w)(key \<mapsto> record))"
  have created: ?goal if "handleCreated pf ch rfd link parentChannel siteUrl prefix w = (x, w')"
    for rfd link parentChannel siteUrl prefix
    using handleCreated_store [OF that] by (elim disjE conjE exE) (simp, force)
  have updated: ?goal if "handleUpdated pf ch rfd link changes' parentChannel siteUrl prefix w = (x, w')"
    for rfd link changes' parentChannel siteUrl prefix
    using handleUpdated_store [OF that] by (elim disjE conjE exE) (simp, force, force)
  from pt show ?thesis
    unfolding post_try_def Let_def
    by (auto simp: bindIO_def liftE_def returnIO_def split: if_splits sum.splits option.splits
          dest: created updated)
qed

lemma bindIO_returnIO: "bindIO (returnIO x) f = f x"
  by (simp add: bindIO_def returnIO_def)

lemma updateDiscussion_no_changes:
  assumes "emptyChanges changes"
  shows "updateDiscussion pf ch url rfd link changes =
     bindIO (liftE (extractRoomIdFromUrl url)) (\<lambda>roomId'.
     case roomId' of
       None \<Rightarrow> throwIO (Error (ascii ''Could not extract room ID from URL: '' @ url))
     | Some roomId \<Rightarrow>
     if roomId = [] then throwIO (Error (ascii ''Could not extract room ID from URL: '' @ url))
     else
     bindIO (getById ch roomId) (\<lambda>discussion'.
     case discussion' of
       None \<Rightarrow> throwIO (Error (ascii ''Discussion room with ID '' @ [0x27] @ roomId @ [0x27] @ ascii '' not found''))
     | Some discussion \<Rightarrow>
     bindIO (getAppUser ch) (\<lambda>appUser'.
     case appUser' of
       None \<Rightarrow> throwIO (Error (ascii ''App user not found''))
     | Some appUser \<Rightarrow> returnIO ())))"
proof -
  from assms have parts: "updateState ch discussion appUser rfd link changes = returnIO []"
    "updateAuthors pf ch discussion changes = returnIO []"
    "updateTitle changes = []" "updateContent link changes = []" "updateTags changes = []"
    for discussion appUser
    by (auto simp: emptyChanges_def updateState_def updateAuthors_def updateTitle_def
          updateContent_def updateTags_def)
  show ?thesis
    unfolding updateDiscussion_def by (simp add: parts bindIO_returnIO cong: option.case_cong if_cong)
qed

lemma onlyCalls_updateDiscussion_no_changes:
  assumes "emptyChanges changes"
  shows "onlyCalls isLookup (updateDiscussion pf ch url rfd link changes)"
  unfolding updateDiscussion_no_changes [OF assms] getById_def getAppUser_def
  by (intro onlyCalls_intros) simp_all

lemma updateDiscussion_no_changes_run:
  assumes "emptyChanges changes"
    and "extractRoomIdFromUrl url = Inr (Some roomId)" and "roomId \<noteq> []"
    and "reply_getById ch (world_calls w) roomId = Inr (Some room)"
    and "reply_getAppUser ch (world_calls w @ [GetRoomById roomId]) = Inr (Some user)"
  shows "updateDiscussion pf ch url rfd link changes w
           = (Inr (), w\<lparr>world_calls := world_calls w @ [GetRoomById roomId, GetAppUser]\<rparr>)"
  using assms(2-)
  by (simp add: updateDiscussion_no_changes [OF assms(1)] bindIO_def liftE_def getById_def
        getAppUser_def perform_def returnIO_def)

lemma DiscussionRef_eta: "\<lparr>ref_id = ref_id d, ref_url = ref_url d\<rparr> = (d :: DiscussionRef)"
  by simp


lemma handleUpdated_with_reference:
  assumes "truthy (rfd_discussion rfd)"
  shows "handleUpdated pf ch rfd link (Some changes) parentChannel siteUrl prefix
           = bindIO (updateDiscussion pf ch (stringOf (rfd_discussion rfd)) rfd link changes)
               (\<lambda>updated. returnIO (successResponse None None))"
    and "handleUpdated pf ch rfd link None parentChannel siteUrl prefix
           = returnIO (successResponse (Some (ascii ''No changes to process'')) None)"
  using assms by (simp_all add: handleUpdated_def bindIO_returnIO)

section \<open>Claims about the signature code\<close>

text \<open>
  C5 (code does not meet it).  The claim: \<open>sha256Bytes\<close> returns the standard digests of
  the empty input and of \<open>abc\<close>.  The code: \<open>totalLength\<close> is the padded length plus 7/8
  (\<open>paddingLength\<close> counts bits, seven of which the byte \<open>0x80\<close> already holds), the buffer
  has the truncated length, and the block loop, bounded by \<open>totalLength\<close>, runs once more
  than there are blocks: \<open>getUint32\<close> reads past the buffer and throws a \<open>RangeError\<close>, on
  both inputs.
\<close>

theorem sha256Bytes_standard_vectors_throw:
  "sha256Bytes [] = Inl RangeError \<and> sha256Bytes [0x61, 0x62, 0x63] = Inl RangeError"
  by (simp add: sha256Bytes_throws)

text \<open>
  C1 (code does not meet it).  The claim: \<open>verifySignature\<close> returns false unless the text after
  \<open>sha256=\<close> is the 64-digit HMAC-SHA-256 of the body.  At the body \<open>{}\<close>, the header
  \<open>sha256=\<close> (no digest at all) and the secret \<open>s3cret\<close>, \<open>verifySignature\<close> of
  \<open>lib/crypto.ts\<close> returns true, and the revision that computes the digest throws.
\<close>

theorem verifySignature_empty_digest:
  "verifySignature (ascii ''{}'') (Some (ascii ''sha256='')) (ascii ''s3cret'') = True
   \<and> verifySignature_hmac (ascii ''{}'') (Some (ascii ''sha256='')) (ascii ''s3cret'') = Inl RangeError"
  by (simp add: verifySignature_prefixed verifySignature_hmac_prefixed startsWith_def ascii_def)

text \<open>
  C6.  For strings of equal length, \<open>timingSafeEqual\<close> executes its loop body once per
  position whatever the contents are: the number of comparisons is the common length, the same
  for any two pairs of that length, and the result is true exactly for equal strings.
\<close>

theorem timingSafeEqual_examines_every_position:
  assumes "length a = length b" and "length a' = length b'" and "length a' = length a"
  shows "snd (timingSafeEqual_counted a b) = length a
       \<and> snd (timingSafeEqual_counted a' b') = snd (timingSafeEqual_counted a b)
       \<and> (timingSafeEqual a b \<longleftrightarrow> a = b)"
  using assms by (simp add: timingSafeEqual_counted_count timingSafeEqual_eq)

theorem timingSafeEqual_examines_every_position_witness:
  "snd (timingSafeEqual_counted (ascii ''Xbcd'') (ascii ''abcd'')) = 4
   \<and> snd (timingSafeEqual_counted (ascii ''abcX'') (ascii ''abcd''))
       = snd (timingSafeEqual_counted (ascii ''Xbcd'') (ascii ''abcd''))
   \<and> \<not> timingSafeEqual (ascii ''Xbcd'') (ascii ''abcd'')"
  using timingSafeEqual_examines_every_position
          [of "ascii ''Xbcd''" "ascii ''abcd''" "ascii ''abcX''" "ascii ''abcd''"]
  by (simp add: ascii_def)

section \<open>Claims about discussion URLs\<close>

text \<open>
  C7, as the claim states it, fails for the empty room id: the pattern of
  \<open>extractRoomIdFromUrl\<close> wants at least one character after \<open>group%2F\<close>, so the link
  built for the host \<open>chat.example.com\<close> and the path \<open>group/\<close> gives \<open>null\<close>.  (The
  platform's \<open>new URL\<close> rejects a bare host name, as it has no scheme.)
\<close>

theorem deep_link_empty_room_id:
  "urlSafe (ascii ''chat.example.com'') \<and> urlSafe []
   \<and> buildDeepLink samplePlatform
         (ascii ''chat.example.com'') (ascii ''group/'' @ [])
       = Inr (ascii ''https://go.rocket.chat/room?host=chat.example.com&path=group%2F'')
   \<and> extractRoomIdFromUrl (ascii ''https://go.rocket.chat/room?host=chat.example.com&path=group%2F'')
       = Inr None"
  by code_simp

text \<open>
  C7, amended.  Extraction from the direct URL and from the deep link of the claim gives
  \<open>ROOM123\<close>; and for every site URL, every platform and every non-empty room id of
  URL-safe characters, extraction from the link that \<open>buildDeepLink\<close> returns for
  \<open>group/\<close> followed by the room id gives the room id back.  For a URL-safe host that
  \<open>new URL\<close> rejects, \<open>buildDeepLink\<close> does return a link.
\<close>

theorem extractRoomId_inverts_buildDeepLink:
  assumes "urlSafe roomId" and "roomId \<noteq> []"
  shows "extractRoomIdFromUrl (ascii ''https://chat.example.com/group/ROOM123'') = Inr (Some (ascii ''ROOM123''))
       \<and> extractRoomIdFromUrl (ascii ''https://go.rocket.chat/room?host=chat.example.com&path=group%2FROOM123'')
           = Inr (Some (ascii ''ROOM123''))
       \<and> (\<forall>link. buildDeepLink pf siteUrl (ascii ''group/'' @ roomId) = Inr link
              \<longrightarrow> extractRoomIdFromUrl link = Inr (Some roomId))
       \<and> (urlSafe siteUrl \<longrightarrow> newURL pf siteUrl = Inl TypeError
              \<longrightarrow> (\<exists>link. buildDeepLink pf siteUrl (ascii ''group/'' @ roomId) = Inr link))"
proof (intro conjI allI impI)
  show "extractRoomIdFromUrl (ascii ''https://chat.example.com/group/ROOM123'') = Inr (Some (ascii ''ROOM123''))"
    by code_simp
  show "extractRoomIdFromUrl (ascii ''https://go.rocket.chat/room?host=chat.example.com&path=group%2FROOM123'')
           = Inr (Some (ascii ''ROOM123''))"
    by code_simp
next
  fix link
  assume "buildDeepLink pf siteUrl (ascii ''group/'' @ roomId) = Inr link"
  with assms show "extractRoomIdFromUrl link = Inr (Some roomId)"
    by (rule deep_link_round_trip)
next
  assume "urlSafe siteUrl" and "newURL pf siteUrl = Inl TypeError"
  then show "\<exists>link. buildDeepLink pf siteUrl (ascii ''group/'' @ roomId) = Inr link"
    using buildDeepLink_host [OF _ _ assms(1)] by blast
qed

theorem extractRoomId_inverts_buildDeepLink_witness:
  "urlSafe (ascii ''ROOM123'') \<and> ascii ''ROOM123'' \<noteq> []
   \<and> buildDeepLink samplePlatform
         (ascii ''chat.example.com'') (ascii ''group/'' @ ascii ''ROOM123'')
       = Inr (ascii ''https://go.rocket.chat/room?host=chat.example.com&path=group%2FROOM123'')
   \<and> extractRoomIdFromUrl (ascii ''https://go.rocket.chat/room?host=chat.example.com&path=group%2FROOM123'')
       = Inr (Some (ascii ''ROOM123''))"
proof -
  have safe: "urlSafe (ascii ''ROOM123'')" by code_simp
  have nonempty: "ascii ''ROOM123'' \<noteq> []" by (simp add: ascii_def)
  have built: "buildDeepLink samplePlatform
         (ascii ''chat.example.com'') (ascii ''group/'' @ ascii ''ROOM123'')
       = Inr (ascii ''https://go.rocket.chat/room?host=chat.example.com&path=group%2FROOM123'')"
    by code_simp
  from extractRoomId_inverts_buildDeepLink [OF safe nonempty] built
  have "extractRoomIdFromUrl (ascii ''https://go.rocket.chat/room?host=chat.example.com&path=group%2FROOM123'')
       = Inr (Some (ascii ''ROOM123''))"
    by blast
  with safe nonempty built show ?thesis by blast
qed

text \<open>
  C10.  \<open>isValidDiscussionUrl\<close> never throws: its result is always a boolean, and it is
  \<open>false\<close> for the empty string and for every string that \<open>new URL\<close> rejects (whatever
  exception the parser throws).
\<close>

theorem isValidDiscussionUrl_never_throws:
  "(\<exists>b. isValidDiscussionUrl pf url siteUrl = Inr b)
   \<and> isValidDiscussionUrl pf [] siteUrl = Inr False
   \<and> (newURL pf url = Inl e \<longrightarrow> isValidDiscussionUrl pf url siteUrl = Inr False)"
  by (auto simp: isValidDiscussionUrl_def isValidDiscussionUrl_try_def split: sum.splits)

theorem isValidDiscussionUrl_never_throws_witness:
  "newURL samplePlatform (ascii ''not a url'') = Inl TypeError
   \<and> isValidDiscussionUrl samplePlatform
        (ascii ''not a url'') (ascii ''https://chat.example.com'') = Inr False"
  using isValidDiscussionUrl_never_throws
          [of samplePlatform "ascii ''not a url''"
              "ascii ''https://chat.example.com''" TypeError]
  by (simp add: samplePlatform_def)

section \<open>Claims about the endpoint and the store\<close>

text \<open>
  C2.  A delivery of \<open>rfd.created\<close> for a record without a discussion reference, to a store
  that has no record for the id, answered with success; then the same request delivered again,
  the store answering its lookup.  The first delivery made exactly one room-creation call and
  stored one record, under the key of the id, holding the id and URL it returned; the second
  returns the same id and URL, with no further creation call and the store unchanged.
\<close>

theorem created_delivery_idempotent:
  assumes content: "request_content request = Some payload"
    and event: "payload_event payload = Some (ascii ''rfd.created'')"
    and rfd: "payload_rfd payload = Some rfd"
    and no_ref: "\<not> truthy (rfd_discussion rfd)"
    and fresh: "world_store w (associationKey (rfd_id rfd)) = None"
    and first: "post verify pf ch cfg request w = (response1, w1)"
    and ok: "api_status response1 = OK"
    and avail: "reply_failure ch (world_calls w1) (ReadByAssociation (associationKey (rfd_id rfd))) = None"
  shows "\<exists>d t response2 w2.
           response_discussion (api_content response1) = Some d
         \<and> creations w1 = Suc (creations w)
         \<and> world_store w1 = (world_store w)(associationKey (rfd_id rfd) \<mapsto>
               \<lparr>stored_rfdId = rfd_id rfd, stored_roomId = ref_id d, stored_roomUrl = ref_url d,
                stored_createdAt = t\<rparr>)
         \<and> post verify pf ch cfg request w1 = (response2, w2)
         \<and> api_status response2 = OK
         \<and> response_discussion (api_content response2) = Some d
         \<and> creations w2 = creations w1
         \<and> world_store w2 = world_store w1"
proof -
  let ?siteUrl = "if setting_site_url cfg = []
                then (case server_Site_Url cfg of Inl e \<Rightarrow> ascii ''https://chat.example.com'' | Inr url \<Rightarrow> url)
                else setting_site_url cfg"
  let ?prefix = "if setting_prefix cfg = [] then ascii ''RFD'' else setting_prefix cfg"
  let ?key = "associationKey (rfd_id rfd)"
  from post_ok_verified [OF first ok] have
    s: "setting_webhook_secret cfg \<noteq> []" and p: "setting_parent_channel cfg \<noteq> []"
    and v: "verify (request_body request) (request_signature request) (setting_webhook_secret cfg) = Inr True"
    and pt: "post_try verify pf ch cfg request w = (Inr response1, w1)"
    by simp_all
  note dispatch = post_try_created [where verify = verify and cfg = cfg and request = request,
      OF s p v content event rfd]
  from pt have hc: "handleCreated pf ch rfd (payload_link payload) (setting_parent_channel cfg)
                      ?siteUrl ?prefix w = (Inr response1, w1)"
    by (simp add: dispatch)
  from handleCreated_first [OF no_ref fresh hc ok] obtain d t where
    r1: "response1 = successResponse None (Some d)"
    and cre: "creations w1 = Suc (creations w)"
    and st: "world_store w1 = (world_store w)(?key \<mapsto>
               \<lparr>stored_rfdId = rfd_id rfd, stored_roomId = ref_id d, stored_roomUrl = ref_url d,
                stored_createdAt = t\<rparr>)"
    by blast
  have stored: "world_store w1 ?key = Some \<lparr>stored_rfdId = rfd_id rfd, stored_roomId = ref_id d,
                  stored_roomUrl = ref_url d, stored_createdAt = t\<rparr>"
    by (simp add: st)
  define w2 where "w2 = w1\<lparr>world_calls := world_calls w1 @ [ReadByAssociation ?key]\<rparr>"
  define response2 where "response2 = successResponse
      (Some (ascii ''Discussion already exists (from persistence)'')) (Some d)"
  have again: "handleCreated pf ch rfd (payload_link payload) (setting_parent_channel cfg)
                      ?siteUrl ?prefix w1 = (Inr response2, w2)"
    using handleCreated_again [OF no_ref stored avail]
    by (simp add: w2_def response2_def DiscussionRef_eta)
  have second: "post verify pf ch cfg request w1 = (response2, w2)"
    by (simp add: post_def dispatch again)
  have "response_discussion (api_content response1) = Some d
         \<and> creations w1 = Suc (creations w)
         \<and> world_store w1 = (world_store w)(?key \<mapsto>
               \<lparr>stored_rfdId = rfd_id rfd, stored_roomId = ref_id d, stored_roomUrl = ref_url d,
                stored_createdAt = t\<rparr>)
         \<and> post verify pf ch cfg request w1 = (response2, w2)
         \<and> api_status response2 = OK
         \<and> response_discussion (api_content response2) = Some d
         \<and> creations w2 = creations w1
         \<and> world_store w2 = world_store w1"
    using r1 cre st second
    by (simp add: response2_def w2_def successResponse_def jsonResponse_def creations_def)
  then show ?thesis by blast
qed

theorem created_delivery_idempotent_witness:
  "api_status (fst (post verifySignature_lib samplePlatform sampleChat sampleSettings
       (sampleRequest (ascii ''rfd.created'') sampleRFD None) emptyWorld)) = OK
   \<and> (\<exists>d. response_discussion (api_content (fst (post verifySignature_lib samplePlatform sampleChat sampleSettings
          (sampleRequest (ascii ''rfd.created'') sampleRFD None) emptyWorld))) = Some d
        \<and> response_discussion (api_content (fst (post verifySignature_lib samplePlatform sampleChat sampleSettings
          (sampleRequest (ascii ''rfd.created'') sampleRFD None)
          (snd (post verifySignature_lib samplePlatform sampleChat sampleSettings
             (sampleRequest (ascii ''rfd.created'') sampleRFD None) emptyWorld))))) = Some d)
   \<and> creations (snd (post verifySignature_lib samplePlatform sampleChat sampleSettings
       (sampleRequest (ascii ''rfd.created'') sampleRFD None)
       (snd (post verifySignature_lib samplePlatform sampleChat sampleSettings
          (sampleRequest (ascii ''rfd.created'') sampleRFD None) emptyWorld)))) = 1"
proof -
  let ?request = "sampleRequest (ascii ''rfd.created'') sampleRFD None"
  let ?first = "post verifySignature_lib samplePlatform sampleChat sampleSettings ?request emptyWorld"
  have content: "request_content ?request = Some \<lparr>payload_event = Some (ascii ''rfd.created''),
          payload_timestamp = ascii ''2026-02-18T22:12:27Z'', payload_rfd = Some sampleRFD,
          payload_link = ascii ''https://adrs.example.com/rfd/0042'', payload_changes = None\<rparr>"
    by (simp add: sampleRequest_def)
  have no_ref: "\<not> truthy (rfd_discussion sampleRFD)"
    by (simp add: sampleRFD_def truthy_def)
  have fresh: "world_store emptyWorld (associationKey (rfd_id sampleRFD)) = None"
    by (simp add: emptyWorld_def)
  have first: "?first = (fst ?first, snd ?first)" by simp
  have ok: "api_status (fst ?first) = OK" by code_simp
  have avail: "reply_failure sampleChat (world_calls (snd ?first))
                 (ReadByAssociation (associationKey (rfd_id sampleRFD))) = None"
    by (simp add: sampleChat_def)
  from created_delivery_idempotent [OF content _ _ no_ref fresh first ok avail]
  obtain d t response2 w2 where
    "response_discussion (api_content (fst ?first)) = Some d"
    "creations (snd ?first) = Suc (creations emptyWorld)"
    "post verifySignature_lib samplePlatform sampleChat sampleSettings ?request (snd ?first) = (response2, w2)"
    "response_discussion (api_content response2) = Some d"
    "creations w2 = creations (snd ?first)"
    by auto
  then show ?thesis using ok by (auto simp: creations_def emptyWorld_def)
qed


text \<open>
  C3.  The claim as stated, at a concrete store: two calls of \<open>storeDiscussion\<close> for the same
  id, the clock reading \<open>T\<close> at the first and \<open>T+\<close> at the second.  The second call
  replaces the record, its created-at included.
\<close>

theorem storeDiscussion_overwrites_createdAt:
  "world_store (snd (storeDiscussion sampleChat (ascii ''0042'') (ascii ''ROOM123'') (ascii ''u'') emptyWorld))
       (associationKey (ascii ''0042''))
     = Some \<lparr>stored_rfdId = ascii ''0042'', stored_roomId = ascii ''ROOM123'', stored_roomUrl = ascii ''u'',
             stored_createdAt = ascii ''T''\<rparr>
   \<and> world_store (snd (storeDiscussion sampleChat (ascii ''0042'') (ascii ''ROOM999'') (ascii ''v'')
          (snd (storeDiscussion sampleChat (ascii ''0042'') (ascii ''ROOM123'') (ascii ''u'') emptyWorld))))
       (associationKey (ascii ''0042''))
     = Some \<lparr>stored_rfdId = ascii ''0042'', stored_roomId = ascii ''ROOM999'', stored_roomUrl = ascii ''v'',
             stored_createdAt = ascii ''T+''\<rparr>"
  by (simp add: storeDiscussion_def updateByAssociation_def now_def bindIO_def sampleChat_def
        emptyWorld_def ascii_def)

text \<open>
  C3, amended.  \<open>storeDiscussion\<close> writes, on every call that succeeds, a record whose
  created-at is the current time, whatever the key held before.  The endpoint never rewrites
  a record that has a room URL: a delivery leaves every such record as it is, and a store in
  which every record has a room URL is still one after the delivery.
\<close>

theorem store_written_once_by_handlers:
  "(storeDiscussion ch rfdId roomId roomUrl w = (Inr u, w1) \<longrightarrow>
      world_store w1 = (world_store w)(associationKey rfdId \<mapsto>
        \<lparr>stored_rfdId = rfdId, stored_roomId = roomId, stored_roomUrl = roomUrl,
         stored_createdAt = reply_now ch (world_calls w)\<rparr>))
   \<and> (post verify pf ch cfg request w = (response, w') \<longrightarrow>
        world_store w k = Some v \<longrightarrow> stored_roomUrl v \<noteq> [] \<longrightarrow> world_store w' k = Some v)
   \<and> (post verify pf ch cfg request w = (response, w') \<longrightarrow>
        (\<forall>k v. world_store w k = Some v \<longrightarrow> stored_roomUrl v \<noteq> []) \<longrightarrow>
        (\<forall>k v. world_store w' k = Some v \<longrightarrow> stored_roomUrl v \<noteq> []))"
proof (intro conjI impI allI)
  assume "storeDiscussion ch rfdId roomId roomUrl w = (Inr u, w1)"
  from storeDiscussion_result [OF this]
  show "world_store w1 = (world_store w)(associationKey rfdId \<mapsto>
        \<lparr>stored_rfdId = rfdId, stored_roomId = roomId, stored_roomUrl = roomUrl,
         stored_createdAt = reply_now ch (world_calls w)\<rparr>)"
    by auto
next
  assume run: "post verify pf ch cfg request w = (response, w')"
    and rec: "world_store w k = Some v" and url: "stored_roomUrl v \<noteq> []"
  from post_store [OF run] rec url show "world_store w' k = Some v"
    by (elim disjE exE conjE) auto
next
  fix k' v'
  assume run: "post verify pf ch cfg request w = (response, w')"
    and inv: "\<forall>k v. world_store w k = Some v \<longrightarrow> stored_roomUrl v \<noteq> []"
    and rec: "world_store w' k' = Some v'"
  from post_store [OF run] inv rec show "stored_roomUrl v' \<noteq> []"
    by (elim disjE exE conjE) (auto split: if_splits)
qed

theorem store_written_once_by_handlers_witness:
  "storeDiscussion sampleChat (ascii ''0042'') (ascii ''ROOM123'') (ascii ''u'') emptyWorld
     = (Inr (), snd (storeDiscussion sampleChat (ascii ''0042'') (ascii ''ROOM123'') (ascii ''u'') emptyWorld))
   \<and> world_store (snd (storeDiscussion sampleChat (ascii ''0042'') (ascii ''ROOM123'') (ascii ''u'') emptyWorld))
       = (world_store emptyWorld)(associationKey (ascii ''0042'') \<mapsto>
           \<lparr>stored_rfdId = ascii ''0042'', stored_roomId = ascii ''ROOM123'', stored_roomUrl = ascii ''u'',
            stored_createdAt = reply_now sampleChat (world_calls emptyWorld)\<rparr>)
   \<and> stored_roomUrl \<lparr>stored_rfdId = ascii ''0042'', stored_roomId = ascii ''ROOM123'',
                      stored_roomUrl = ascii ''u'', stored_createdAt = ascii ''T''\<rparr> \<noteq> []
   \<and> world_store (snd (post verifySignature_lib samplePlatform sampleChat sampleSettings
         (sampleRequest (ascii ''rfd.updated'') sampleRFD None)
         (emptyWorld\<lparr>world_store := [associationKey (ascii ''0042'') \<mapsto>
            \<lparr>stored_rfdId = ascii ''0042'', stored_roomId = ascii ''ROOM123'', stored_roomUrl = ascii ''u'',
             stored_createdAt = ascii ''T''\<rparr>]\<rparr>)))
        (associationKey (ascii ''0042''))
       = Some \<lparr>stored_rfdId = ascii ''0042'', stored_roomId = ascii ''ROOM123'', stored_roomUrl = ascii ''u'',
               stored_createdAt = ascii ''T''\<rparr>"
proof -
  let ?stored = "\<lparr>stored_rfdId = ascii ''0042'', stored_roomId = ascii ''ROOM123'', stored_roomUrl = ascii ''u'',
             stored_createdAt = ascii ''T''\<rparr>"
  let ?w = "emptyWorld\<lparr>world_store := [associationKey (ascii ''0042'') \<mapsto> ?stored]\<rparr>"
  let ?run = "post verifySignature_lib samplePlatform sampleChat sampleSettings
         (sampleRequest (ascii ''rfd.updated'') sampleRFD None) ?w"
  have written: "storeDiscussion sampleChat (ascii ''0042'') (ascii ''ROOM123'') (ascii ''u'') emptyWorld
     = (Inr (), snd (storeDiscussion sampleChat (ascii ''0042'') (ascii ''ROOM123'') (ascii ''u'') emptyWorld))"
    by (simp add: storeDiscussion_def updateByAssociation_def now_def bindIO_def sampleChat_def)
  have run: "?run = (fst ?run, snd ?run)" by simp
  have there: "world_store ?w (associationKey (ascii ''0042'')) = Some ?stored" by simp
  have url: "stored_roomUrl ?stored \<noteq> []" by (simp add: ascii_def)
  from store_written_once_by_handlers
      [where ch = sampleChat and rfdId = "ascii ''0042''" and roomId = "ascii ''ROOM123''"
         and roomUrl = "ascii ''u''" and w = emptyWorld and u = "()"
         and ?w1.0 = "snd (storeDiscussion sampleChat (ascii ''0042'') (ascii ''ROOM123'') (ascii ''u'') emptyWorld)"]
    written
  have first: "world_store (snd (storeDiscussion sampleChat (ascii ''0042'') (ascii ''ROOM123'') (ascii ''u'') emptyWorld))
       = (world_store emptyWorld)(associationKey (ascii ''0042'') \<mapsto>
           \<lparr>stored_rfdId = ascii ''0042'', stored_roomId = ascii ''ROOM123'', stored_roomUrl = ascii ''u'',
            stored_createdAt = reply_now sampleChat (world_calls emptyWorld)\<rparr>)"
    by blast
  from store_written_once_by_handlers
      [where verify = verifySignature_lib and pf = samplePlatform and ch = sampleChat
         and cfg = sampleSettings and request = "sampleRequest (ascii ''rfd.updated'') sampleRFD None"
         and w = ?w and response = "fst ?run" and w' = "snd ?run"
         and k = "associationKey (ascii ''0042'')" and v = ?stored]
    run there url
  have second: "world_store (snd ?run) (associationKey (ascii ''0042'')) = Some ?stored"
    by blast
  from written first url second show ?thesis by blast
qed

text \<open>
  C4.  The claim as stated, at a concrete delivery: an \<open>rfd.updated\<close> request whose change
  set has every field absent, for a record that refers to room \<open>ROOM123\<close>.  The response is a
  success, after a room lookup and an application-user lookup.
\<close>

theorem noop_update_makes_lookups:
  "emptyChanges noChanges
   \<and> fst (post verifySignature_lib samplePlatform sampleChat sampleSettings
        (sampleRequest (ascii ''rfd.updated'')
           (sampleRFD\<lparr>rfd_discussion := Some (ascii ''https://chat.example.com/group/ROOM123'')\<rparr>)
           (Some noChanges)) emptyWorld)
       = successResponse None None
   \<and> world_calls (snd (post verifySignature_lib samplePlatform sampleChat sampleSettings
        (sampleRequest (ascii ''rfd.updated'')
           (sampleRFD\<lparr>rfd_discussion := Some (ascii ''https://chat.example.com/group/ROOM123'')\<rparr>)
           (Some noChanges)) emptyWorld))
       = [GetRoomById (ascii ''ROOM123''), GetAppUser]"
  by code_simp

text \<open>
  C4, amended.  For a change set with every field absent or false and a record whose
  discussion is known (referred to by the record, or stored with a room URL), \<open>handleUpdated\<close>
  leaves the store as it is and makes only lookups (store read, room by id, application
  user): no description is set, no member added, no message posted.  When the reference gives a
  room id and both lookups find their object, the calls are exactly these two and the answer
  is a success.  When the payload has no change set at all, the answer is a success with no
  call if the record refers to its discussion, and with the store read as the only call if
  the discussion is stored with a room URL and the read does not fail.  When the record refers
  to no discussion and none is stored for its id, \<open>handleUpdated\<close> does what \<open>handleCreated\<close> does,
  whatever the change set.
\<close>

theorem noop_update_only_looks_up:
  assumes empty: "emptyChanges changes"
  shows "((truthy (rfd_discussion rfd)
            \<or> (\<exists>v. world_store w (associationKey (rfd_id rfd)) = Some v \<and> stored_roomUrl v \<noteq> []))
          \<longrightarrow> handleUpdated pf ch rfd link (Some changes) parentChannel siteUrl prefix w = (r, w')
          \<longrightarrow> world_store w' = world_store w
              \<and> (\<exists>cs. world_calls w' = world_calls w @ cs \<and> list_all isLookup cs))
       \<and> (truthy (rfd_discussion rfd)
          \<longrightarrow> extractRoomIdFromUrl (stringOf (rfd_discussion rfd)) = Inr (Some roomId) \<longrightarrow> roomId \<noteq> []
          \<longrightarrow> reply_getById ch (world_calls w) roomId = Inr (Some room)
          \<longrightarrow> reply_getAppUser ch (world_calls w @ [GetRoomById roomId]) = Inr (Some user)
          \<longrightarrow> handleUpdated pf ch rfd link (Some changes) parentChannel siteUrl prefix w
                = (Inr (successResponse None None),
                   w\<lparr>world_calls := world_calls w @ [GetRoomById roomId, GetAppUser]\<rparr>))
       \<and> (truthy (rfd_discussion rfd)
          \<longrightarrow> handleUpdated pf ch rfd link None parentChannel siteUrl prefix w
                = (Inr (successResponse (Some (ascii ''No changes to process'')) None), w))
       \<and> (\<not> truthy (rfd_discussion rfd)
          \<longrightarrow> world_store w (associationKey (rfd_id rfd)) = Some v \<longrightarrow> stored_roomUrl v \<noteq> []
          \<longrightarrow> reply_failure ch (world_calls w) (ReadByAssociation (associationKey (rfd_id rfd))) = None
          \<longrightarrow> handleUpdated pf ch rfd link None parentChannel siteUrl prefix w
                = (Inr (successResponse (Some (ascii ''No changes to process'')) None),
                   w\<lparr>world_calls := world_calls w @ [ReadByAssociation (associationKey (rfd_id rfd))]\<rparr>))
       \<and> (\<not> truthy (rfd_discussion rfd)
          \<longrightarrow> world_store w (associationKey (rfd_id rfd)) = None
          \<longrightarrow> handleUpdated pf ch rfd link changes' parentChannel siteUrl prefix w
                = handleCreated pf ch rfd link parentChannel siteUrl prefix w)"
proof -
  have update: "onlyCalls isLookup (bindIO (updateDiscussion pf ch url rfd' link changes)
               (\<lambda>updated. returnIO (successResponse None None)))" for url rfd'
    by (intro onlyCalls_intros onlyCalls_updateDiscussion_no_changes [OF empty])
  have a: "(truthy (rfd_discussion rfd)
            \<or> (\<exists>v. world_store w (associationKey (rfd_id rfd)) = Some v \<and> stored_roomUrl v \<noteq> []))
          \<longrightarrow> handleUpdated pf ch rfd link (Some changes) parentChannel siteUrl prefix w = (r, w')
          \<longrightarrow> world_store w' = world_store w
              \<and> (\<exists>cs. world_calls w' = world_calls w @ cs \<and> list_all isLookup cs)"
  proof (rule impI, rule impI)
    assume ref: "truthy (rfd_discussion rfd)
            \<or> (\<exists>v. world_store w (associationKey (rfd_id rfd)) = Some v \<and> stored_roomUrl v \<noteq> [])"
      and run: "handleUpdated pf ch rfd link (Some changes) parentChannel siteUrl prefix w = (r, w')"
    show "world_store w' = world_store w \<and> (\<exists>cs. world_calls w' = world_calls w @ cs \<and> list_all isLookup cs)"
    proof (cases "truthy (rfd_discussion rfd)")
      case True
      from run have "bindIO (updateDiscussion pf ch (stringOf (rfd_discussion rfd)) rfd link changes)
                 (\<lambda>updated. returnIO (successResponse None None)) w = (r, w')"
        by (simp add: handleUpdated_with_reference(1) [OF True])
      with update show ?thesis
        using onlyCalls_store onlyCalls_calls by blast
    next
      case False
      with ref obtain v where v: "world_store w (associationKey (rfd_id rfd)) = Some v"
        and url: "stored_roomUrl v \<noteq> []" by blast
      obtain g wa where g: "getDiscussion ch (rfd_id rfd) w = (g, wa)"
        by (cases "getDiscussion ch (rfd_id rfd) w")
      from getDiscussion_result [OF g] v have
        ga: "world_store wa = world_store w"
          "world_calls wa = world_calls w @ [ReadByAssociation (associationKey (rfd_id rfd))]"
        and gv: "g = Inr (Some v) \<or> (\<exists>e. g = Inl e)"
        by (auto split: option.splits)
      from gv show ?thesis
      proof
        assume "\<exists>e. g = Inl e"
        with run False g have "w' = wa"
          by (auto simp: handleUpdated_def bindIO_def)
        with ga show ?thesis by simp
      next
        assume "g = Inr (Some v)"
        with run False g url have "bindIO (updateDiscussion pf ch (stored_roomUrl v)
                   (rfd\<lparr>rfd_discussion := Some (stored_roomUrl v)\<rparr>) link changes)
                 (\<lambda>updated. returnIO (successResponse None None)) wa = (r, w')"
          by (simp add: handleUpdated_def bindIO_def returnIO_def truthy_def stringOf_def)
        with update obtain cs where "world_store w' = world_store wa"
          "world_calls w' = world_calls wa @ cs" "list_all isLookup cs"
          using onlyCalls_store onlyCalls_calls by blast
        with ga have "world_store w' = world_store w
            \<and> world_calls w' = world_calls w @ (ReadByAssociation (associationKey (rfd_id rfd)) # cs)
            \<and> list_all isLookup (ReadByAssociation (associationKey (rfd_id rfd)) # cs)"
          by simp
        then show ?thesis by blast
      qed
    qed
  qed
  have b: "truthy (rfd_discussion rfd)
          \<longrightarrow> extractRoomIdFromUrl (stringOf (rfd_discussion rfd)) = Inr (Some roomId) \<longrightarrow> roomId \<noteq> []
          \<longrightarrow> reply_getById ch (world_calls w) roomId = Inr (Some room)
          \<longrightarrow> reply_getAppUser ch (world_calls w @ [GetRoomById roomId]) = Inr (Some user)
          \<longrightarrow> handleUpdated pf ch rfd link (Some changes) parentChannel siteUrl prefix w
                = (Inr (successResponse None None),
                   w\<lparr>world_calls := world_calls w @ [GetRoomById roomId, GetAppUser]\<rparr>)"
    by (simp add: handleUpdated_with_reference(1) bindIO_def returnIO_def
          updateDiscussion_no_changes_run [OF empty])
  have c: "truthy (rfd_discussion rfd)
          \<longrightarrow> handleUpdated pf ch rfd link None parentChannel siteUrl prefix w
                = (Inr (successResponse (Some (ascii ''No changes to process'')) None), w)"
    by (simp add: handleUpdated_with_reference(2) returnIO_def)
  have d: "\<not> truthy (rfd_discussion rfd)
        \<longrightarrow> world_store w (associationKey (rfd_id rfd)) = Some v \<longrightarrow> stored_roomUrl v \<noteq> []
        \<longrightarrow> reply_failure ch (world_calls w) (ReadByAssociation (associationKey (rfd_id rfd))) = None
        \<longrightarrow> handleUpdated pf ch rfd link None parentChannel siteUrl prefix w
              = (Inr (successResponse (Some (ascii ''No changes to process'')) None),
                 w\<lparr>world_calls := world_calls w @ [ReadByAssociation (associationKey (rfd_id rfd))]\<rparr>)"
    by (simp add: handleUpdated_def getDiscussion_def readByAssociation_def bindIO_def returnIO_def
          truthy_def)
  have e: "\<not> truthy (rfd_discussion rfd)
        \<longrightarrow> world_store w (associationKey (rfd_id rfd)) = None
        \<longrightarrow> handleUpdated pf ch rfd link changes' parentChannel siteUrl prefix w
              = handleCreated pf ch rfd link parentChannel siteUrl prefix w"
    by (simp add: handleUpdated_def handleCreated_def getDiscussion_def readByAssociation_def
          bindIO_def returnIO_def split: option.splits)
  show ?thesis by (rule conjI [OF a conjI [OF b conjI [OF c conjI [OF d e]]]])
qed

theorem noop_update_only_looks_up_witness:
  "emptyChanges noChanges
   \<and> truthy (rfd_discussion (sampleRFD\<lparr>rfd_discussion := Some (ascii ''https://chat.example.com/group/ROOM123'')\<rparr>))
   \<and> handleUpdated samplePlatform sampleChat
        (sampleRFD\<lparr>rfd_discussion := Some (ascii ''https://chat.example.com/group/ROOM123'')\<rparr>)
        (ascii ''https://adrs.example.com/rfd/0042'') (Some noChanges)
        (ascii ''rfds'') (ascii ''https://chat.example.com'') (ascii ''RFD'') emptyWorld
       = (Inr (successResponse None None),
          emptyWorld\<lparr>world_calls := world_calls emptyWorld @ [GetRoomById (ascii ''ROOM123''), GetAppUser]\<rparr>)
   \<and> \<not> truthy (rfd_discussion sampleRFD)
   \<and> handleUpdated samplePlatform sampleChat sampleRFD
        (ascii ''https://adrs.example.com/rfd/0042'') None
        (ascii ''rfds'') (ascii ''https://chat.example.com'') (ascii ''RFD'')
        (emptyWorld\<lparr>world_store := [associationKey (ascii ''0042'') \<mapsto>
            \<lparr>stored_rfdId = ascii ''0042'', stored_roomId = ascii ''ROOM123'',
             stored_roomUrl = ascii ''https://chat.example.com/group/ROOM123'',
             stored_createdAt = ascii ''T''\<rparr>]\<rparr>)
       = (Inr (successResponse (Some (ascii ''No changes to process'')) None),
          \<lparr>world_calls = [ReadByAssociation (associationKey (ascii ''0042''))],
           world_store = [associationKey (ascii ''0042'') \<mapsto>
            \<lparr>stored_rfdId = ascii ''0042'', stored_roomId = ascii ''ROOM123'',
             stored_roomUrl = ascii ''https://chat.example.com/group/ROOM123'',
             stored_createdAt = ascii ''T''\<rparr>]\<rparr>)"
proof -
  let ?rfd = "sampleRFD\<lparr>rfd_discussion := Some (ascii ''https://chat.example.com/group/ROOM123'')\<rparr>"
  have e: "emptyChanges noChanges" by (simp add: emptyChanges_def noChanges_def)
  have t: "truthy (rfd_discussion ?rfd)" by (simp add: truthy_def ascii_def)
  have x: "extractRoomIdFromUrl (stringOf (rfd_discussion ?rfd)) = Inr (Some (ascii ''ROOM123''))"
    by code_simp
  have n: "ascii ''ROOM123'' \<noteq> []" by (simp add: ascii_def)
  have r: "reply_getById sampleChat (world_calls emptyWorld) (ascii ''ROOM123'')
             = Inr (Some \<lparr>room_id = ascii ''ROOM123'', room_slugifiedName = ascii ''ROOM123'',
                          room_parentRoom = Some (ascii ''PARENT'')\<rparr>)"
    by (simp add: sampleChat_def)
  have u: "reply_getAppUser sampleChat (world_calls emptyWorld @ [GetRoomById (ascii ''ROOM123'')])
             = Inr (Some \<lparr>user_username = ascii ''rfd.bot'', user_emails = []\<rparr>)"
    by (simp add: sampleChat_def)
  from noop_update_only_looks_up [OF e, of ?rfd emptyWorld] t x n r u
  have "handleUpdated samplePlatform sampleChat ?rfd
        (ascii ''https://adrs.example.com/rfd/0042'') (Some noChanges)
        (ascii ''rfds'') (ascii ''https://chat.example.com'') (ascii ''RFD'') emptyWorld
       = (Inr (successResponse None None),
          emptyWorld\<lparr>world_calls := world_calls emptyWorld @ [GetRoomById (ascii ''ROOM123''), GetAppUser]\<rparr>)"
    by blast
  note with_reference = this
  let ?stored = "\<lparr>stored_rfdId = ascii ''0042'', stored_roomId = ascii ''ROOM123'',
             stored_roomUrl = ascii ''https://chat.example.com/group/ROOM123'',
             stored_createdAt = ascii ''T''\<rparr>"
  let ?w = "emptyWorld\<lparr>world_store := [associationKey (ascii ''0042'') \<mapsto> ?stored]\<rparr>"
  have no_ref: "\<not> truthy (rfd_discussion sampleRFD)" by (simp add: sampleRFD_def truthy_def)
  have there: "world_store ?w (associationKey (rfd_id sampleRFD)) = Some ?stored"
    by (simp add: sampleRFD_def)
  have url: "stored_roomUrl ?stored \<noteq> []" by (simp add: ascii_def)
  have read: "reply_failure sampleChat (world_calls ?w)
                (ReadByAssociation (associationKey (rfd_id sampleRFD))) = None"
    by (simp add: sampleChat_def)
  from noop_update_only_looks_up
         [OF e, where rfd = sampleRFD and w = ?w and ch = sampleChat and v = ?stored and pf = samplePlatform]
       no_ref there url read
  have "handleUpdated samplePlatform sampleChat sampleRFD
        (ascii ''https://adrs.example.com/rfd/0042'') None
        (ascii ''rfds'') (ascii ''https://chat.example.com'') (ascii ''RFD'') ?w
       = (Inr (successResponse (Some (ascii ''No changes to process'')) None),
          ?w\<lparr>world_calls := world_calls ?w @ [ReadByAssociation (associationKey (rfd_id sampleRFD))]\<rparr>)"
    by blast
  then have from_store: "handleUpdated samplePlatform sampleChat sampleRFD
        (ascii ''https://adrs.example.com/rfd/0042'') None
        (ascii ''rfds'') (ascii ''https://chat.example.com'') (ascii ''RFD'') ?w
       = (Inr (successResponse (Some (ascii ''No changes to process'')) None),
          \<lparr>world_calls = [ReadByAssociation (associationKey (ascii ''0042''))],
           world_store = [associationKey (ascii ''0042'') \<mapsto> ?stored]\<rparr>)"
    by (simp add: emptyWorld_def sampleRFD_def)
  from e t with_reference no_ref from_store show ?thesis by blast
qed

text \<open>
  C8.  The endpoint at a \<open>rfd.created\<close> delivery whose record refers to a GitHub pull request,
  with the option \<open>overwrite_invalid_discussion_url\<close> switched on and a site URL on another
  host, so that \<open>isValidDiscussionUrl\<close> rejects the reference.  \<open>handleCreated\<close> reads neither the
  option nor the validity check: it answers with the incoming reference and an empty room
  id, and makes no call at all, whatever the platform and the state of the world.
\<close>

theorem invalid_reference_is_returned:
  "setting_overwrite_invalid_discussion_url sampleSettings
   \<and> isValidDiscussionUrl
        \<lparr>newURL = (\<lambda>u. Inr \<lparr>url_host = (if u = ascii ''https://github.com/org/adrs/pull/42''
                                             then ascii ''github.com'' else ascii ''chat.example.com''),
                                 url_hostParam = None\<rparr>),
         toLowerCase = map asciiLower\<rparr>
        (ascii ''https://github.com/org/adrs/pull/42'') (setting_site_url sampleSettings) = Inr False
   \<and> post verifySignature_lib pf ch sampleSettings
        (sampleRequest (ascii ''rfd.created'')
           (sampleRFD\<lparr>rfd_discussion := Some (ascii ''https://github.com/org/adrs/pull/42'')\<rparr>) None) w
       = (successResponse (Some (ascii ''Discussion already exists''))
            (Some \<lparr>ref_id = [], ref_url = ascii ''https://github.com/org/adrs/pull/42''\<rparr>), w)"
proof -
  have invalid: "isValidDiscussionUrl
        \<lparr>newURL = (\<lambda>u. Inr \<lparr>url_host = (if u = ascii ''https://github.com/org/adrs/pull/42''
                                             then ascii ''github.com'' else ascii ''chat.example.com''),
                                 url_hostParam = None\<rparr>),
         toLowerCase = map asciiLower\<rparr>
        (ascii ''https://github.com/org/adrs/pull/42'') (setting_site_url sampleSettings) = Inr False"
    by code_simp
  have verified: "verifySignature_lib (ascii ''{}'') (Some (ascii ''sha256=00'')) (ascii ''s3cret'') = Inr True"
    by (simp add: verifySignature_lib_def verifySignature_def startsWith_def ascii_def)
  have no_id: "endpoint_extractRoomIdFromUrl (ascii ''https://github.com/org/adrs/pull/42'') = None"
    by code_simp
  let ?rfd = "sampleRFD\<lparr>rfd_discussion := Some (ascii ''https://github.com/org/adrs/pull/42'')\<rparr>"
  let ?payload = "\<lparr>payload_event = Some (ascii ''rfd.created''), payload_timestamp = ascii ''2026-02-18T22:12:27Z'',
                    payload_rfd = Some ?rfd, payload_link = ascii ''https://adrs.example.com/rfd/0042'',
                    payload_changes = None\<rparr>"
  have secret: "setting_webhook_secret sampleSettings \<noteq> []" by (simp add: sampleSettings_def ascii_def)
  have parent: "setting_parent_channel sampleSettings \<noteq> []" by (simp add: sampleSettings_def ascii_def)
  have signed: "verifySignature_lib (request_body (sampleRequest (ascii ''rfd.created'') ?rfd None))
                  (request_signature (sampleRequest (ascii ''rfd.created'') ?rfd None))
                  (setting_webhook_secret sampleSettings) = Inr True"
    using verified by (simp add: sampleRequest_def sampleSettings_def)
  have content: "request_content (sampleRequest (ascii ''rfd.created'') ?rfd None) = Some ?payload"
    by (simp add: sampleRequest_def)
  have event: "payload_event ?payload = Some (ascii ''rfd.created'')" by simp
  have rfd: "payload_rfd ?payload = Some ?rfd" by simp
  have site: "setting_site_url sampleSettings \<noteq> []" by (simp add: sampleSettings_def ascii_def)
  have prefix: "setting_prefix sampleSettings \<noteq> []" by (simp add: sampleSettings_def ascii_def)
  have "post_try verifySignature_lib pf ch sampleSettings
        (sampleRequest (ascii ''rfd.created'') ?rfd None) w
       = handleCreated pf ch ?rfd
           (ascii ''https://adrs.example.com/rfd/0042'') (ascii ''rfds'') (ascii ''https://chat.example.com'')
           (ascii ''RFD'') w"
    unfolding post_try_created [where verify = verifySignature_lib and cfg = sampleSettings and pf = pf
          and ch = ch and w = w, OF secret parent signed content event rfd]
    using site prefix by (simp add: sampleSettings_def)
  moreover have "truthy (Some (ascii ''https://github.com/org/adrs/pull/42''))"
    by (simp add: truthy_def ascii_def)
  ultimately have "post verifySignature_lib pf ch sampleSettings
        (sampleRequest (ascii ''rfd.created'') ?rfd None) w
       = (successResponse (Some (ascii ''Discussion already exists''))
            (Some \<lparr>ref_id = [], ref_url = ascii ''https://github.com/org/adrs/pull/42''\<rparr>), w)"
    by (simp add: post_def handleCreated_def returnIO_def no_id stringOf_def)
  moreover have "setting_overwrite_invalid_discussion_url sampleSettings"
    by (simp add: sampleSettings_def)
  ultimately show ?thesis using invalid by blast
qed

text \<open>
  C9.  The claim as stated, at a concrete request: no signature header, no payload, and an
  application whose webhook secret is not configured.  The answer is the internal error of
  the configuration check, which comes before the signature check.
\<close>

theorem unconfigured_secret_answers_first:
  "post verifySignature_lib samplePlatform sampleChat (sampleSettings\<lparr>setting_webhook_secret := []\<rparr>)
        \<lparr>request_signature = None, request_content = None, request_body = ascii ''null''\<rparr> emptyWorld
     = (errorResponse INTERNAL_SERVER_ERROR (Error (ascii ''Webhook secret not configured'')), emptyWorld)"
  by (simp add: post_def post_try_def returnIO_def sampleSettings_def)

text \<open>
  C9, amended.  With the webhook secret and the parent channel configured, a request whose
  signature check returns \<open>false\<close> is answered with the unauthorized response and the world is
  left as it is, whatever the payload is (it may be absent, or lack \<open>event\<close> or \<open>rfd\<close>).  A
  missing header makes the check return \<open>false\<close> in both revisions of \<open>verifySignature\<close>.
\<close>

theorem unauthorized_before_payload:
  assumes "setting_webhook_secret cfg \<noteq> []" and "setting_parent_channel cfg \<noteq> []"
    and "verify (request_body request) (request_signature request) (setting_webhook_secret cfg) = Inr False"
  shows "post verify pf ch cfg (request\<lparr>request_content := content'\<rparr>) w
           = (errorResponse UNAUTHORIZED (Error (ascii ''Invalid signature'')), w)
       \<and> verifySignature_lib body None secret = Inr False
       \<and> verifySignature_hmac body None secret = Inr False"
  using assms
  by (simp add: post_def post_try_unauthorized verifySignature_lib_def verifySignature_def
        verifySignature_hmac_def)

theorem unauthorized_before_payload_witness:
  "setting_webhook_secret sampleSettings \<noteq> [] \<and> setting_parent_channel sampleSettings \<noteq> []
   \<and> post verifySignature_lib samplePlatform sampleChat sampleSettings
        \<lparr>request_signature = None, request_content = None, request_body = ascii ''null''\<rparr> emptyWorld
       = (errorResponse UNAUTHORIZED (Error (ascii ''Invalid signature'')), emptyWorld)"
proof -
  have s: "setting_webhook_secret sampleSettings \<noteq> []" by (simp add: sampleSettings_def ascii_def)
  have p: "setting_parent_channel sampleSettings \<noteq> []" by (simp add: sampleSettings_def ascii_def)
  have v: "verifySignature_lib
             (request_body \<lparr>request_signature = None, request_content = None, request_body = ascii ''null''\<rparr>)
             (request_signature \<lparr>request_signature = None, request_content = None, request_body = ascii ''null''\<rparr>)
             (setting_webhook_secret sampleSettings) = Inr False"
    by (simp add: verifySignature_lib_def verifySignature_def)
  from unauthorized_before_payload [where verify = verifySignature_lib, OF s p v, of samplePlatform sampleChat None emptyWorld]
  show ?thesis using s p by simp
qed

end
